theory Spec2Isabelle
  imports Complex_Main "HOL-Library.Sublist" "HOL-Library.Log_Nat"
begin

section \<open>Text\<close>

text \<open>
  A Python \<open>str\<close> is a sequence of code points. The model takes the code points
  0..255 (Latin-1), one \<^typ>\<open>char\<close> each; the symbols U+20AC and U+20B9 of the
  source's currency tables lie outside this range, cannot occur in a modelled line and
  are left out of the tables. The predicates below are Python's on that range:
  \<open>str.isspace\<close> (also what \<open>\s\<close> matches and what \<open>strip\<close> and \<open>split\<close> remove),
  \<open>\d\<close> (decimal digits only), \<open>str.isdigit\<close> (which also accepts the superscripts
  U+00B2, U+00B3, U+00B9) and \<open>str.lower\<close>.
\<close>

definition py_ord :: "char \<Rightarrow> nat" where
  "py_ord c = of_char c"

definition isspace :: "char \<Rightarrow> bool" where
  "isspace c = (let n = py_ord c in (9 \<le> n \<and> n \<le> 13) \<or> (28 \<le> n \<and> n \<le> 32) \<or> n = 133 \<or> n = 160)"

definition isdecimal :: "char \<Rightarrow> bool" where
  "isdecimal c = (let n = py_ord c in 48 \<le> n \<and> n \<le> 57)"

definition isdigit_char :: "char \<Rightarrow> bool" where
  "isdigit_char c = (let n = py_ord c in (48 \<le> n \<and> n \<le> 57) \<or> n = 178 \<or> n = 179 \<or> n = 185)"

definition lower_char :: "char \<Rightarrow> char" where
  "lower_char c = (let n = py_ord c in
     if (65 \<le> n \<and> n \<le> 90) \<or> (192 \<le> n \<and> n \<le> 222 \<and> n \<noteq> 215) then char_of (n + 32) else c)"

text \<open>The letters \<open>A-Z\<close> and \<open>a-z\<close>.\<close>

definition ascii_upper :: "char \<Rightarrow> bool" where
  "ascii_upper c = (let n = py_ord c in 65 \<le> n \<and> n \<le> 90)"

definition ascii_lower :: "char \<Rightarrow> bool" where
  "ascii_lower c = (let n = py_ord c in 97 \<le> n \<and> n \<le> 122)"

definition lower :: "string \<Rightarrow> string" where
  "lower s = map lower_char s"

definition strip :: "string \<Rightarrow> string" where
  "strip s = rev (dropWhile isspace (rev (dropWhile isspace s)))"

text \<open>\<open>str.split()\<close> with no argument: the maximal runs of non-blank characters.\<close>

fun split_ws :: "string \<Rightarrow> string \<Rightarrow> string list" where
  "split_ws w [] = (if w = [] then [] else [rev w])"
| "split_ws w (c # cs) =
     (if isspace c then (if w = [] then split_ws [] cs else rev w # split_ws [] cs)
      else split_ws (c # w) cs)"

definition split :: "string \<Rightarrow> string list" where
  "split s = split_ws [] s"

text \<open>\<open>str.isdigit\<close>: not empty and every character a digit.\<close>

definition isdigit :: "string \<Rightarrow> bool" where
  "isdigit s = (s \<noteq> [] \<and> list_all isdigit_char s)"

text \<open>\<open>sub in s\<close> on strings.\<close>

fun contains :: "string \<Rightarrow> string \<Rightarrow> bool" where
  "contains [] sub = (sub = [])"
| "contains (c # cs) sub = (prefix sub (c # cs) \<or> contains cs sub)"

text \<open>\<open>str.zfill\<close>: pad with zeros on the left, after a leading sign.\<close>

definition zfill :: "nat \<Rightarrow> string \<Rightarrow> string" where
  "zfill n s =
     (case s of
        c # t \<Rightarrow> if c = CHR ''+'' \<or> c = CHR ''-''
                 then c # replicate (n - length s) CHR ''0'' @ t
                 else replicate (n - length s) CHR ''0'' @ s
      | [] \<Rightarrow> replicate n CHR ''0'')"

section \<open>Regular expressions\<close>

text \<open>
  The part of Python's \<open>re\<close> syntax that the extractors use, with its backtracking
  semantics: alternatives are tried left to right, repetitions are greedy, and the
  match reported at a position is the first one found in that order.
\<close>

text \<open>
  The items of a character class: a literal character, the ranges \<open>A-Z\<close> and \<open>a-z\<close>,
  and \<open>\d\<close> (the same as \<open>0-9\<close> on the modelled characters) and \<open>\s\<close>.
\<close>

datatype citem = Lit char | Upper | Lower | Digit | Space

datatype rx =
    Eps
  | Dot
  | Cls "citem list"
  | NCls "citem list"
  | Seq rx rx
  | Alt rx rx
  | Rep nat "nat option" rx
  | Grp nat rx
  | Bol
  | Eol
  | NotAhead rx

text \<open>
  Membership of a character in one item of a class \<open>[...]\<close>. With \<open>re.IGNORECASE\<close>
  (\<open>ic\<close>) a literal or a range matches when the character agrees with one of its
  members up to case.
\<close>

fun in_item :: "bool \<Rightarrow> citem \<Rightarrow> char \<Rightarrow> bool" where
  "in_item ic (Lit l) c = (if ic then lower_char c = lower_char l else c = l)"
| "in_item ic Upper c = (ascii_upper c \<or> (ic \<and> ascii_lower c))"
| "in_item ic Lower c = (ascii_lower c \<or> (ic \<and> ascii_upper c))"
| "in_item ic Digit c = isdecimal c"
| "in_item ic Space c = isspace c"

definition in_class :: "bool \<Rightarrow> citem list \<Rightarrow> char \<Rightarrow> bool" where
  "in_class ic items c = list_ex (\<lambda>i. in_item ic i c) items"

type_synonym caps = "(nat \<times> string) list"

type_synonym outcome = "string \<times> caps"

text \<open>
  Greedy repetition \<open>{lo,hi}\<close> of a sub-pattern whose outcomes are given by \<open>f\<close>. Every
  iteration has to consume a character, so the text itself bounds the number of
  iterations and serves as the recursion argument. The flag \<open>bos\<close> says whether the
  position is the start of the whole text (where \<open>^\<close> matches).
\<close>

primrec rep_iter ::
  "(bool \<Rightarrow> string \<Rightarrow> outcome list) \<Rightarrow> string \<Rightarrow> nat \<Rightarrow> nat option \<Rightarrow> bool \<Rightarrow> string \<Rightarrow> outcome list"
where
  "rep_iter f [] lo hi bos s = (if lo = 0 then [(s, [])] else [])"
| "rep_iter f (x # fuel) lo hi bos s =
     (if hi = Some 0 then []
      else concat (map (\<lambda>(s1, c1). map (\<lambda>(s2, c2). (s2, c1 @ c2))
                                       (rep_iter f fuel (lo - 1) (map_option (\<lambda>h. h - 1) hi) False s1))
                       (filter (\<lambda>(s1, c1). length s1 < length s) (f bos s))))
     @ (if lo = 0 then [(s, [])] else [])"

text \<open>
  All ways in which a pattern matches a prefix of the text, in the order in which a
  backtracking matcher finds them: each outcome is the text left over and the groups
  captured.
\<close>

primrec ms :: "bool \<Rightarrow> rx \<Rightarrow> bool \<Rightarrow> string \<Rightarrow> outcome list" where
  "ms ic Eps bos s = [(s, [])]"
| "ms ic Dot bos s = (case s of [] \<Rightarrow> [] | c # t \<Rightarrow> if c = CHR 0x0A then [] else [(t, [])])"
| "ms ic (Cls items) bos s =
     (case s of [] \<Rightarrow> [] | c # t \<Rightarrow> if in_class ic items c then [(t, [])] else [])"
| "ms ic (NCls items) bos s =
     (case s of [] \<Rightarrow> [] | c # t \<Rightarrow> if in_class ic items c then [] else [(t, [])])"
| "ms ic (Seq a b) bos s =
     concat (map (\<lambda>(s1, c1). map (\<lambda>(s2, c2). (s2, c1 @ c2))
                                  (ms ic b (bos \<and> length s1 = length s) s1))
                 (ms ic a bos s))"
| "ms ic (Alt a b) bos s = ms ic a bos s @ ms ic b bos s"
| "ms ic (Rep lo hi r) bos s = rep_iter (ms ic r) s lo hi bos s"
| "ms ic (Grp n r) bos s =
     map (\<lambda>(s1, c1). (s1, c1 @ [(n, take (length s - length s1) s)])) (ms ic r bos s)"
| "ms ic Bol bos s = (if bos then [(s, [])] else [])"
| "ms ic Eol bos s = (if s = [] \<or> s = [CHR 0x0A] then [(s, [])] else [])"
| "ms ic (NotAhead r) bos s = (if ms ic r bos s = [] then [(s, [])] else [])"

text \<open>A match: the matched text, the text after it and the captured groups.\<close>

type_synonym rmatch = "string \<times> string \<times> caps"

definition match_at :: "bool \<Rightarrow> rx \<Rightarrow> bool \<Rightarrow> string \<Rightarrow> rmatch option" where
  "match_at ic r bos s =
     (case ms ic r bos s of
        [] \<Rightarrow> None
      | (rest, c) # _ \<Rightarrow> Some (take (length s - length rest) s, rest, c))"

text \<open>\<open>re.match\<close>: a match at the start of the text.\<close>

definition re_match :: "bool \<Rightarrow> rx \<Rightarrow> string \<Rightarrow> rmatch option" where
  "re_match ic r s = match_at ic r True s"

text \<open>\<open>re.search\<close>: the first match at the leftmost position that has one.\<close>

primrec search_at :: "bool \<Rightarrow> rx \<Rightarrow> bool \<Rightarrow> string \<Rightarrow> rmatch option" where
  "search_at ic r bos [] = match_at ic r bos []"
| "search_at ic r bos (x # xs) =
     (case match_at ic r bos (x # xs) of Some m \<Rightarrow> Some m | None \<Rightarrow> search_at ic r False xs)"

definition re_search :: "bool \<Rightarrow> rx \<Rightarrow> string \<Rightarrow> rmatch option" where
  "re_search ic r s = search_at ic r True s"

text \<open>
  \<open>re.finditer\<close>: the successive matches that do not overlap, scanning from the left;
  \<open>skip\<close> counts the characters still covered by the previous match. (None of the
  patterns iterated over matches the empty string.)
\<close>

primrec scan :: "bool \<Rightarrow> rx \<Rightarrow> bool \<Rightarrow> nat \<Rightarrow> string \<Rightarrow> rmatch list" where
  "scan ic r bos skip [] =
     (if skip = 0 then (case match_at ic r bos [] of Some m \<Rightarrow> [m] | None \<Rightarrow> []) else [])"
| "scan ic r bos skip (x # xs) =
     (if 0 < skip then scan ic r False (skip - 1) xs
      else case match_at ic r bos (x # xs) of
             None \<Rightarrow> scan ic r False 0 xs
           | Some m \<Rightarrow> m # scan ic r False (length (fst m) - 1) xs)"

definition finditer :: "bool \<Rightarrow> rx \<Rightarrow> string \<Rightarrow> rmatch list" where
  "finditer ic r s = scan ic r True 0 s"

text \<open>
  \<open>re.sub(pattern, '', s)\<close>: the text without the matches of a pattern that does not
  match the empty string.
\<close>

primrec sub_scan :: "bool \<Rightarrow> rx \<Rightarrow> bool \<Rightarrow> nat \<Rightarrow> string \<Rightarrow> string" where
  "sub_scan ic r bos skip [] = []"
| "sub_scan ic r bos skip (x # xs) =
     (if 0 < skip then sub_scan ic r False (skip - 1) xs
      else case match_at ic r bos (x # xs) of
             None \<Rightarrow> x # sub_scan ic r False 0 xs
           | Some m \<Rightarrow> (if fst m = [] then x # sub_scan ic r False 0 xs
                        else sub_scan ic r False (length (fst m) - 1) xs))"

definition re_sub_empty :: "bool \<Rightarrow> rx \<Rightarrow> string \<Rightarrow> string" where
  "re_sub_empty ic r s = sub_scan ic r True 0 s"

text \<open>
  \<open>match.group(n)\<close> and \<open>match.groups()\<close> for a pattern with \<open>k\<close> groups: a group
  that took no part in the match is \<open>None\<close>.
\<close>

definition grp :: "rmatch \<Rightarrow> nat \<Rightarrow> string option" where
  "grp m n = map_of (rev (snd (snd m))) n"

definition groups :: "nat \<Rightarrow> rmatch \<Rightarrow> string option list" where
  "groups k m = map (grp m) [1..<Suc k]"

text \<open>Pattern notation.\<close>

fun lit :: "string \<Rightarrow> rx" where
  "lit [] = Eps"
| "lit [c] = Cls [Lit c]"
| "lit (c # cs) = Seq (Cls [Lit c]) (lit cs)"

fun seqs :: "rx list \<Rightarrow> rx" where
  "seqs [] = Eps"
| "seqs [r] = r"
| "seqs (r # rs) = Seq r (seqs rs)"

fun alts :: "rx list \<Rightarrow> rx" where
  "alts [] = NotAhead Eps"
| "alts [r] = r"
| "alts (r # rs) = Alt r (alts rs)"

definition star :: "rx \<Rightarrow> rx" where
  "star r = Rep 0 None r"

definition plus :: "rx \<Rightarrow> rx" where
  "plus r = Rep 1 None r"

definition opt :: "rx \<Rightarrow> rx" where
  "opt r = Rep 0 (Some 1) r"

definition words :: "string list \<Rightarrow> rx" where
  "words ws = alts (map lit ws)"

section \<open>Errors and number parsing\<close>

text \<open>
  The exceptions the extraction py_ord can meet. A \<open>try\<close> block is a computation with
  result \<open>py_error + 'a\<close>, and its \<open>except\<close> clause is the case distinction on that
  result.
\<close>

datatype py_error = ValueError | TypeError | AttributeError | IndexError

definition bind_err :: "py_error + 'a \<Rightarrow> ('a \<Rightarrow> py_error + 'b) \<Rightarrow> py_error + 'b" where
  "bind_err m f = (case m of Inl e \<Rightarrow> Inl e | Inr x \<Rightarrow> f x)"

text \<open>Using a value that may be \<open>None\<close> where a string is required.\<close>

definition need :: "string option \<Rightarrow> py_error + string" where
  "need g = (case g of None \<Rightarrow> Inl TypeError | Some x \<Rightarrow> Inr x)"

definition digit_val :: "char \<Rightarrow> nat" where
  "digit_val c = py_ord c - 48"

text \<open>The value of a run of decimal digits, as an integer and as a fraction.\<close>

definition int_of_digits :: "string \<Rightarrow> int" where
  "int_of_digits s = foldl (\<lambda>n c. 10 * n + int (digit_val c)) 0 s"

definition rat_of_digits :: "string \<Rightarrow> rat" where
  "rat_of_digits s = foldl (\<lambda>n c. 10 * n + of_nat (digit_val c)) 0 s"

text \<open>
  \<open>int(s)\<close> for the strings the code passes to it, which are runs of decimal digits
  captured by a pattern; anything else is reported as \<open>ValueError\<close>.
\<close>

definition py_int :: "string \<Rightarrow> py_error + int" where
  "py_int s = (if s \<noteq> [] \<and> list_all isdecimal s then Inr (int_of_digits s) else Inl ValueError)"

text \<open>
  A Python float is an IEEE 754 double. A finite float is modelled by the rational
  number it denotes: comparing, negating and taking the absolute value of floats is
  exact, and whatever rounds (a literal such as \<open>0.1\<close>, \<open>float(s)\<close>, a sum, a
  difference) is rounded to the nearest double, a tie going to the even significand.

  \<open>pow2 k\<close> is the power of two with an exponent of either sign, and \<open>floor_log2 x\<close>
  the exponent \<open>e\<close> with \<open>2^e \<le> x < 2^(e+1)\<close> for a positive \<open>x\<close>: for a quotient
  of integers with \<open>m\<close> and \<open>n\<close> binary digits it is \<open>m - n\<close> or \<open>m - n - 1\<close>.
\<close>

definition pow2 :: "int \<Rightarrow> rat" where
  "pow2 k = (if 0 \<le> k then 2 ^ nat k else 1 / 2 ^ nat (- k))"

definition floor_log2 :: "rat \<Rightarrow> int" where
  "floor_log2 x =
     (let (p, q) = quotient_of x; e = bitlen p - bitlen q in if pow2 e \<le> x then e else e - 1)"

definition round_half_even :: "rat \<Rightarrow> int" where
  "round_half_even x =
     (let f = \<lfloor>x\<rfloor>; d = x - of_int f in
      if d < 1 / 2 then f else if 1 / 2 < d then f + 1 else if even f then f else f + 1)"

text \<open>
  The nearest double: 53 significant binary digits, and steps of \<open>2^-1074\<close> in the
  subnormal range.
\<close>

definition double :: "rat \<Rightarrow> rat" where
  "double x =
     (if x = 0 then 0
      else let e = max (floor_log2 \<bar>x\<bar> - 52) (- 1074)
           in of_int (round_half_even (x / pow2 e)) * pow2 e)"

text \<open>
  The confidences and scores of the program are finite. An amount is parsed from a run
  of digits of any length and is \<open>inf\<close> when the rounded value reaches \<open>2^1024\<close>; it is
  never negative and never \<open>nan\<close>.
\<close>

datatype pyfloat = Finite rat | Infinity

definition float_of :: "rat \<Rightarrow> pyfloat" where
  "float_of x =
     (let r = double x in if r \<noteq> 0 \<and> 1024 \<le> floor_log2 \<bar>r\<bar> then Infinity else Finite r)"

text \<open>
  \<open>float(s)\<close> for the strings the code passes to it, which consist of decimal digits
  and dots: digits with at most one dot, and at least one digit. The result is the
  float nearest to the decimal value.
\<close>

definition py_float :: "string \<Rightarrow> py_error + pyfloat" where
  "py_float s =
     (let ip = takeWhile isdecimal s; rest = dropWhile isdecimal s in
      case rest of
        [] \<Rightarrow> if ip = [] then Inl ValueError else Inr (float_of (rat_of_digits ip))
      | c # fp \<Rightarrow>
          if c = CHR ''.'' \<and> list_all isdecimal fp \<and> (ip \<noteq> [] \<or> fp \<noteq> [])
          then Inr (float_of (rat_of_digits ip + rat_of_digits fp / 10 ^ length fp))
          else Inl ValueError)"

text \<open>\<open>float.is_integer\<close> of a finite float.\<close>

definition is_integer :: "rat \<Rightarrow> bool" where
  "is_integer x = (of_int \<lfloor>x\<rfloor> = x)"

section \<open>Data model\<close>

text \<open>
  An OCR detection as \<open>extract_receipt_data\<close> reads it: the keys \<open>text\<close>,
  \<open>confidence\<close> and \<open>variant\<close> of the dictionary (the bounding box is never read). The
  entries of \<open>normalized_results\<close> have the same shape, with the text stripped; their
  \<open>normalized_text\<close> is computed and never read by the extractors.
\<close>

record detection =
  d_text :: string
  d_confidence :: rat
  d_variant :: string

datatype currency = USD | EUR | GBP | JPY | INR | UNKNOWN

text \<open>The dictionary that \<open>extract_receipt_data\<close> returns.\<close>

record receipt =
  title :: string
  date :: string
  amount :: pyfloat
  currency :: currency
  raw_text :: "string list"

section \<open>Normalising, ranking and deduplicating the detections\<close>

text \<open>The first loop of \<open>extract_receipt_data\<close>: strip, drop blank and one-character texts.\<close>

fun normalized_results :: "detection list \<Rightarrow> detection list" where
  "normalized_results [] = []"
| "normalized_results (r # rs) =
     (let t = strip (d_text r) in
      if t = [] then normalized_results rs
      else if length t < 2 then normalized_results rs
      else r\<lparr>d_text := t\<rparr> # normalized_results rs)"

text \<open>
  \<open>list.sort(key=confidence, reverse=True)\<close>: Python's sort is stable, also with
  \<open>reverse=True\<close>, so equal confidences keep their input order.
\<close>

definition sort_by_confidence :: "detection list \<Rightarrow> detection list" where
  "sort_by_confidence rs = sort_key (\<lambda>r. - d_confidence r) rs"

text \<open>The deduplication loop with its set \<open>seen_texts\<close>.\<close>

fun deduplicate :: "string set \<Rightarrow> detection list \<Rightarrow> detection list" where
  "deduplicate seen [] = []"
| "deduplicate seen (r # rs) =
     (if d_text r \<notin> seen then r # deduplicate (insert (d_text r) seen) rs
      else deduplicate seen rs)"

definition deduplicated_results :: "detection list \<Rightarrow> detection list" where
  "deduplicated_results ocr_results = deduplicate {} (sort_by_confidence (normalized_results ocr_results))"

section \<open>Title extraction\<close>

text \<open>
  The table \<open>title_patterns\<close>, searched with \<open>re.IGNORECASE\<close>:
  \<^verbatim>\<open>(?:title|merchant|store|vendor|name)[:.\s-]+(.+)\<close>,
  \<^verbatim>\<open>^((?!date|amount|total|invoice|receipt).{3,30})$\<close> and
  \<^verbatim>\<open>^([A-Z][a-z]+(?: [A-Z][a-z]+){1,3})$\<close>.
\<close>

definition title_label_pattern :: rx where
  "title_label_pattern =
     seqs [words [''title'', ''merchant'', ''store'', ''vendor'', ''name''],
           plus (Cls [Lit CHR '':'', Lit CHR ''.'', Space, Lit CHR ''-'']),
           Grp 1 (plus Dot)]"

definition title_line_pattern :: rx where
  "title_line_pattern =
     seqs [Bol,
           Grp 1 (Seq (NotAhead (words [''date'', ''amount'', ''total'', ''invoice'', ''receipt'']))
                      (Rep 3 (Some 30) Dot)),
           Eol]"

definition capitalized :: rx where
  "capitalized = Seq (Cls [Upper]) (plus (Cls [Lower]))"

definition title_noun_pattern :: rx where
  "title_noun_pattern =
     seqs [Bol,
           Grp 1 (Seq capitalized (Rep 1 (Some 3) (Seq (lit '' '') capitalized))),
           Eol]"

definition title_patterns :: "rx list" where
  "title_patterns = [title_label_pattern, title_line_pattern, title_noun_pattern]"

text \<open>\<^verbatim>\<open>^(title|merchant|store|name)\s*[:.-]?\s*\<close>, removed from the extracted title.\<close>

definition title_prefix :: rx where
  "title_prefix =
     seqs [Bol, Grp 1 (words [''title'', ''merchant'', ''store'', ''name'']), star (Cls [Space]),
           opt (Cls [Lit CHR '':'', Lit CHR ''.'', Lit CHR ''-'']), star (Cls [Space])]"

text \<open>
  The body of the inner loop of the first pass for one pattern: \<open>None\<close> stands for
  going on to the next pattern (no match, or the \<open>continue\<close> on a short single word),
  \<open>Some\<close> for the \<open>return\<close>. \<open>match.group(1).strip()\<close> raises when the group is
  \<open>None\<close>.
\<close>

definition title_from_pattern :: "rx \<Rightarrow> string \<Rightarrow> py_error + string option" where
  "title_from_pattern pattern text =
     (case re_search True pattern text of
        None \<Rightarrow> Inr None
      | Some m \<Rightarrow>
          (case grp m 1 of
             None \<Rightarrow> Inl AttributeError
           | Some g \<Rightarrow>
               (let extracted_title = strip g;
                    cleaned_title = re_sub_empty True title_prefix extracted_title
                in if length (split cleaned_title) = 1 \<and> length cleaned_title < 4 then Inr None
                   else Inr (Some cleaned_title))))"

fun title_first_pass_line :: "rx list \<Rightarrow> string \<Rightarrow> py_error + string option" where
  "title_first_pass_line [] text = Inr None"
| "title_first_pass_line (pattern # patterns) text =
     (case title_from_pattern pattern text of
        Inl e \<Rightarrow> Inl e
      | Inr (Some t) \<Rightarrow> Inr (Some t)
      | Inr None \<Rightarrow> title_first_pass_line patterns text)"

fun title_first_pass :: "detection list \<Rightarrow> py_error + string option" where
  "title_first_pass [] = Inr None"
| "title_first_pass (res # rest) =
     (case title_first_pass_line title_patterns (strip (d_text res)) of
        Inl e \<Rightarrow> Inl e
      | Inr (Some t) \<Rightarrow> Inr (Some t)
      | Inr None \<Rightarrow> title_first_pass rest)"

text \<open>The patterns of the second pass.\<close>

definition title_stop_words :: rx where
  "title_stop_words =
     words [''date'', ''amount'', ''total'', ''invoice'', ''receipt'', ''bill'', ''tax'', ''payment'',
            ''customer'']"

definition proper_name :: rx where
  "proper_name = seqs [Bol, capitalized, Rep 0 (Some 3) (Seq (plus (Cls [Space])) capitalized), Eol]"

definition business_words :: rx where
  "business_words =
     words [''LLC'', ''Inc'', ''Corp'', ''Shop'', ''Store'', ''Restaurant'', ''Cafe'', ''Hotel'']"

definition day_month_like :: rx where
  "day_month_like =
     seqs [Rep 1 (Some 2) (Cls [Digit]), Cls [Lit CHR ''/'', Lit CHR ''.'', Lit CHR ''-''],
           Rep 1 (Some 2) (Cls [Digit])]"

definition currency_symbols :: "citem list" where
  "currency_symbols = [Lit CHR ''$'', Lit CHR 0xA3, Lit CHR 0xA5]"

definition money_like :: rx where
  "money_like = seqs [Cls currency_symbols, star (Cls [Space]), plus (Cls [Digit])]"

text \<open>The second pass collects \<open>merchant_name_candidates\<close>: text, score and kind.\<close>

fun merchant_name_candidates ::
  "(string \<times> rat \<times> string) list \<Rightarrow> detection list \<Rightarrow> (string \<times> rat \<times> string) list"
where
  "merchant_name_candidates cands [] = cands"
| "merchant_name_candidates cands (res # rest) =
     (let text = strip (d_text res) in
      if length text < 3 then merchant_name_candidates cands rest
      else if re_search True title_stop_words text \<noteq> None then merchant_name_candidates cands rest
      else if re_match False proper_name text \<noteq> None
        then merchant_name_candidates (cands @ [(text, double (8 / 10), ''proper name'')]) rest
      else if re_search True business_words text \<noteq> None
        then merchant_name_candidates (cands @ [(text, double (7 / 10), ''business name'')]) rest
      else if length cands = 0
        then (if re_search False day_month_like text = None \<and> re_search False money_like text = None
              then merchant_name_candidates (cands @ [(text, double (5 / 10), ''first line'')]) rest
              else merchant_name_candidates cands rest)
      else merchant_name_candidates cands rest)"

text \<open>The fallback loop: the first line of three characters or more that is not a number.\<close>

fun first_meaningful_line :: "detection list \<Rightarrow> string option" where
  "first_meaningful_line [] = None"
| "first_meaningful_line (res # rest) =
     (let text = strip (d_text res) in
      if 3 \<le> length text \<and> \<not> isdigit text then Some text else first_meaningful_line rest)"

definition extract_title_enhanced :: "detection list \<Rightarrow> py_error + string" where
  "extract_title_enhanced normalized =
     (case title_first_pass normalized of
        Inl e \<Rightarrow> Inl e
      | Inr (Some t) \<Rightarrow> Inr t
      | Inr None \<Rightarrow>
          (case sort_key (\<lambda>c. - fst (snd c)) (merchant_name_candidates [] normalized) of
             best_candidate # _ \<Rightarrow> Inr (fst best_candidate)
           | [] \<Rightarrow>
               (case first_meaningful_line normalized of
                  Some text \<Rightarrow> Inr text
                | None \<Rightarrow> Inr ''Untitled Receipt'')))"

section \<open>Date extraction\<close>

definition date_sep :: rx where
  "date_sep = Cls [Lit CHR ''/'', Lit CHR ''.'', Lit CHR ''-'']"

definition label_sep :: rx where
  "label_sep = Cls [Lit CHR '':'', Lit CHR ''.'', Space, Lit CHR ''-'']"

definition digits :: "nat \<Rightarrow> nat \<Rightarrow> rx" where
  "digits lo hi = Rep lo (Some hi) (Cls [Digit])"

text \<open>\<^verbatim>\<open>(\d{1,2})[/.-](\d{1,2})[/.-](20\d{2})\<close>\<close>

definition dmy_pattern :: rx where
  "dmy_pattern =
     seqs [Grp 1 (digits 1 2), date_sep, Grp 2 (digits 1 2), date_sep,
           Grp 3 (Seq (lit ''20'') (digits 2 2))]"

definition month_names :: rx where
  "month_names =
     words [''jan'', ''feb'', ''mar'', ''apr'', ''may'', ''jun'', ''jul'', ''aug'', ''sep'', ''oct'',
            ''nov'', ''dec'']"

definition blank_or_comma :: rx where
  "blank_or_comma = Cls [Space, Lit CHR '','']"

text \<open>The table \<open>date_patterns\<close>, each pattern with its number of groups.\<close>

definition date_patterns :: "(rx \<times> nat) list" where
  "date_patterns =
     [(dmy_pattern, 3),
      (seqs [Grp 1 (digits 2 2), date_sep, Grp 2 (digits 1 2), date_sep, Grp 3 (digits 4 4)], 3),
      (seqs [Grp 1 (digits 1 1), date_sep, Grp 2 (digits 1 2), date_sep, Grp 3 (digits 4 4)], 3),
      (seqs [words [''date'', ''dt''], plus label_sep,
             Grp 1 (digits 1 2), date_sep, Grp 2 (digits 1 2), date_sep, Grp 3 (digits 2 4)], 3),
      (seqs [words [''date'', ''dt''], plus label_sep,
             Grp 1 (seqs [digits 1 2, star (Cls [Space]), month_names,
                          star (Cls [Lower]), star blank_or_comma, digits 2 4])], 1),
      (seqs [Grp 1 (digits 1 2), date_sep, Grp 2 (digits 1 2), date_sep, Grp 3 (digits 2 2)], 3),
      (seqs [Grp 1 (digits 4 4), date_sep, Grp 2 (digits 1 2), date_sep, Grp 3 (digits 1 2)], 3),
      (seqs [Grp 1 (digits 1 2), star (Cls [Space]), month_names,
             star (Cls [Lower]), star blank_or_comma, Grp 2 (digits 2 4)], 2),
      (seqs [month_names, star (Cls [Lower]), star (Cls [Space]),
             Grp 1 (digits 1 2), star blank_or_comma, Grp 2 (digits 2 4)], 2)]"

definition month_map :: "(string \<times> string) list" where
  "month_map =
     [(''jan'', ''01''), (''feb'', ''02''), (''mar'', ''03''), (''apr'', ''04''), (''may'', ''05''),
      (''jun'', ''06''), (''jul'', ''07''), (''aug'', ''08''), (''sep'', ''09''), (''oct'', ''10''),
      (''nov'', ''11''), (''dec'', ''12'')]"

text \<open>The f-string \<^verbatim>\<open>f"{month.zfill(2)}/{day.zfill(2)}/{year}"\<close>.\<close>

definition format_date :: "string \<Rightarrow> string \<Rightarrow> string \<Rightarrow> string" where
  "format_date month day year = zfill 2 month @ ''/'' @ zfill 2 day @ ''/'' @ year"

text \<open>\<open>re.findall\<close> for a pattern with three groups: a group that took no part gives \<open>''\<close>.\<close>

definition group_text :: "rmatch \<Rightarrow> nat \<Rightarrow> string" where
  "group_text m n = (case grp m n of Some g \<Rightarrow> g | None \<Rightarrow> [])"

definition findall3 :: "rx \<Rightarrow> string \<Rightarrow> (string \<times> string \<times> string) list" where
  "findall3 r s = map (\<lambda>m. (group_text m 1, group_text m 2, group_text m 3)) (finditer False r s)"

text \<open>
  First loop: lines with the word \<open>date\<close>. The \<open>try\<close> body returns only for a first
  number in 13..31; any exception is logged and the loop goes on.
\<close>

fun date_labelled :: "detection list \<Rightarrow> string option" where
  "date_labelled [] = None"
| "date_labelled (res # rest) =
     (let text = strip (d_text res) in
      if contains (lower text) ''date'' then
        (case findall3 dmy_pattern text of
           [] \<Rightarrow> date_labelled rest
         | (day, month, year) # _ \<Rightarrow>
             (case bind_err (py_int day) (\<lambda>d. Inr (12 < d \<and> d \<le> 31)) of
                Inr True \<Rightarrow> Some (format_date month day year)
              | Inr False \<Rightarrow> date_labelled rest
              | Inl e \<Rightarrow> date_labelled rest))
      else date_labelled rest)"

text \<open>
  Second loop: the first line with a match of the pattern, with or without label. The
  test is \<^verbatim>\<open>int(day) > 12 and int(day) <= 31 and int(month) <= 12\<close>, evaluated from
  the left.
\<close>

definition date_direct_body :: "rmatch \<Rightarrow> py_error + string" where
  "date_direct_body m =
     bind_err (need (grp m 1)) (\<lambda>day.
     bind_err (need (grp m 2)) (\<lambda>month.
     bind_err (need (grp m 3)) (\<lambda>year.
     bind_err (py_int day) (\<lambda>d.
     bind_err (if 12 < d \<and> d \<le> 31 then bind_err (py_int month) (\<lambda>mo. Inr (mo \<le> 12)) else Inr False)
       (\<lambda>european.
          if european then Inr (format_date month day year)
          else Inr (format_date day month year))))))"

fun date_direct :: "detection list \<Rightarrow> string option" where
  "date_direct [] = None"
| "date_direct (res # rest) =
     (case re_search False dmy_pattern (strip (d_text res)) of
        None \<Rightarrow> date_direct rest
      | Some m \<Rightarrow>
          (case date_direct_body m of
             Inr d \<Rightarrow> Some d
           | Inl e \<Rightarrow> date_direct rest))"

text \<open>Third loop: the same pattern again, always formatted as day first.\<close>

definition date_forced_body :: "rmatch \<Rightarrow> py_error + string" where
  "date_forced_body m =
     bind_err (need (grp m 1)) (\<lambda>d.
     bind_err (need (grp m 2)) (\<lambda>mo.
     bind_err (need (grp m 3)) (\<lambda>y. Inr (format_date mo d y))))"

fun date_forced :: "detection list \<Rightarrow> string option" where
  "date_forced [] = None"
| "date_forced (res # rest) =
     (case re_search False dmy_pattern (strip (d_text res)) of
        None \<Rightarrow> date_forced rest
      | Some m \<Rightarrow>
          (case date_forced_body m of
             Inr d \<Rightarrow> Some d
           | Inl e \<Rightarrow> date_forced rest))"

text \<open>
  Fourth loop: the table, every pattern on every line. A two-digit year below 50 is put
  in the 2000s, otherwise in the 1900s.
\<close>

definition expand_year :: "string \<Rightarrow> py_error + string" where
  "expand_year year =
     (if length year = 2
      then bind_err (py_int year) (\<lambda>y. Inr ((if y < 50 then ''20'' else ''19'') @ year))
      else Inr year)"

definition date_from_parts :: "string \<Rightarrow> string \<Rightarrow> string \<Rightarrow> py_error + string" where
  "date_from_parts part1 part2 part3 =
     bind_err (py_int part1) (\<lambda>p1.
     bind_err (if 12 < p1 \<and> p1 \<le> 31 then bind_err (py_int part2) (\<lambda>p2. Inr (p2 \<le> 12)) else Inr False)
       (\<lambda>european.
          let day = (if european then part1 else part2);
              month = (if european then part2 else part1)
          in bind_err (expand_year part3) (\<lambda>year. Inr (format_date month day year))))"

fun date_from_month_name :: "(string \<times> string) list \<Rightarrow> string \<Rightarrow> string \<Rightarrow> string \<Rightarrow> py_error + string option"
where
  "date_from_month_name [] text g0 g1 = Inr None"
| "date_from_month_name ((month_abbr, month) # months) text g0 g1 =
     (if contains (lower text) month_abbr then
        (let day = (if re_match False (digits 1 2) g0 \<noteq> None then g0 else g1);
             year = (if 2 \<le> length g1 then g1 else g0)
         in bind_err (expand_year year) (\<lambda>year. Inr (Some (month @ ''/'' @ zfill 2 day @ ''/'' @ year))))
      else date_from_month_name months text g0 g1)"

text \<open>
  The \<open>try\<close> body for one match of a table pattern. A group that is \<open>None\<close> makes the
  body raise wherever it is first used, and every exception has the same handler.
\<close>

definition date_from_match :: "nat \<Rightarrow> rmatch \<Rightarrow> string \<Rightarrow> py_error + string option" where
  "date_from_match k m text =
     (case groups k m of
        [g1, g2, g3] \<Rightarrow>
          bind_err (need g1) (\<lambda>part1.
          bind_err (need g2) (\<lambda>part2.
          bind_err (need g3) (\<lambda>part3.
          bind_err (date_from_parts part1 part2 part3) (\<lambda>d. Inr (Some d)))))
      | [g1, g2] \<Rightarrow>
          bind_err (need g1) (\<lambda>g0.
          bind_err (need g2) (\<lambda>g1. date_from_month_name month_map text g0 g1))
      | _ \<Rightarrow> Inr None)"

fun date_table_line :: "(rx \<times> nat) list \<Rightarrow> string \<Rightarrow> string option" where
  "date_table_line [] text = None"
| "date_table_line ((pattern, k) # patterns) text =
     (case re_search True pattern text of
        None \<Rightarrow> date_table_line patterns text
      | Some m \<Rightarrow>
          (case date_from_match k m text of
             Inr (Some d) \<Rightarrow> Some d
           | Inr None \<Rightarrow> date_table_line patterns text
           | Inl e \<Rightarrow> date_table_line patterns text))"

fun date_table :: "detection list \<Rightarrow> string option" where
  "date_table [] = None"
| "date_table (res # rest) =
     (case date_table_line date_patterns (strip (d_text res)) of
        Some d \<Rightarrow> Some d
      | None \<Rightarrow> date_table rest)"

text \<open>Last: all matches of the pattern over all lines, the first one formatted day first.\<close>

definition direct_matches :: "detection list \<Rightarrow> (string \<times> string \<times> string) list" where
  "direct_matches normalized = concat (map (\<lambda>res. findall3 dmy_pattern (strip (d_text res))) normalized)"

definition extract_date_enhanced :: "detection list \<Rightarrow> string" where
  "extract_date_enhanced normalized =
     (case date_labelled normalized of
        Some d \<Rightarrow> d
      | None \<Rightarrow>
     (case date_direct normalized of
        Some d \<Rightarrow> d
      | None \<Rightarrow>
     (case date_forced normalized of
        Some d \<Rightarrow> d
      | None \<Rightarrow>
     (case date_table normalized of
        Some d \<Rightarrow> d
      | None \<Rightarrow>
     (case direct_matches normalized of
        (day, month, year) # _ \<Rightarrow> format_date month day year
      | [] \<Rightarrow> [])))))"

section \<open>Amount and currency extraction\<close>

text \<open>A candidate of \<open>amount_candidates\<close>.\<close>

record candidate =
  c_amount :: pyfloat
  c_currency :: currency
  c_text :: string
  c_confidence :: rat

text \<open>The dictionary \<open>currency_map\<close>, on the modelled range of characters.\<close>

definition currency_map :: "(string \<times> currency) list" where
  "currency_map =
     [(''$'', USD), ([CHR 0xA3], GBP), ([CHR 0xA5], JPY), (''rs'', INR), (''rupees'', INR)]"

definition money_label :: rx where
  "money_label = words [''amount'', ''total'', ''sum'', ''price'', ''cost'', ''fee'']"

definition money_sep :: rx where
  "money_sep = star (Cls [Lit CHR '':'', Space, Lit CHR ''.'', Lit CHR ''-''])"

text \<open>\<^verbatim>\<open>\d+(?:[.,]\d{1,2})?\<close>\<close>

definition number :: rx where
  "number = Seq (plus (Cls [Digit])) (opt (Seq (Cls [Lit CHR ''.'', Lit CHR '','']) (digits 1 2)))"

text \<open>\<^verbatim>\<open>[Rr][Ss]\.?|[Rr]upees?\.?\<close>\<close>

definition rupee_word :: rx where
  "rupee_word =
     Alt (seqs [Cls [Lit CHR ''R'', Lit CHR ''r''], Cls [Lit CHR ''S'', Lit CHR ''s''], opt (lit ''.'')])
         (seqs [Cls [Lit CHR ''R'', Lit CHR ''r''], lit ''upee'', opt (lit ''s''), opt (lit ''.'')])"

text \<open>\<^verbatim>\<open>[Rr][Ss]\.?|[Rr]upees?\<close>, the test on the currency indicator.\<close>

definition rupee_word_short :: rx where
  "rupee_word_short =
     Alt (seqs [Cls [Lit CHR ''R'', Lit CHR ''r''], Cls [Lit CHR ''S'', Lit CHR ''s''], opt (lit ''.'')])
         (seqs [Cls [Lit CHR ''R'', Lit CHR ''r''], lit ''upee'', opt (lit ''s'')])"

definition letter_s :: rx where
  "letter_s = Cls [Lit CHR ''S'', Lit CHR ''s'']"

text \<open>
  The table \<open>currency_patterns\<close>: pattern, number of groups, score. All are applied with
  \<open>re.IGNORECASE\<close>.
\<close>

definition currency_patterns :: "(rx \<times> nat \<times> rat) list" where
  "currency_patterns =
     [(seqs [money_label, money_sep, Grp 1 (Cls currency_symbols), star (Cls [Space]), Grp 2 number],
       2, double (9 / 10)),
      (seqs [money_label, money_sep, Grp 1 number, star (Cls [Space]), Grp 2 (Cls currency_symbols)],
       2, double (9 / 10)),
      (seqs [money_label, money_sep, Grp 1 rupee_word, star (Cls [Space]), Grp 2 number], 2, double (9 / 10)),
      (seqs [money_label, money_sep, letter_s, star (Cls [Space]), Grp 1 number], 1, double (95 / 100)),
      (seqs [letter_s, star (Cls [Space]), Grp 1 number], 1, double (8 / 10)),
      (seqs [lit ''amount'', star (NCls [Digit]), Grp 1 (plus (Cls [Digit]))], 1, double (9 / 10)),
      (seqs [lit ''total'', star (NCls [Digit]), Grp 1 (plus (Cls [Digit]))], 1, double (9 / 10)),
      (seqs [lit ''sum'', star (NCls [Digit]), Grp 1 (plus (Cls [Digit]))], 1, double (9 / 10)),
      (seqs [money_label, money_sep, Grp 1 number], 1, double (8 / 10)),
      (seqs [Grp 1 (Cls currency_symbols), star (Cls [Space]), Grp 2 number], 2, double (7 / 10)),
      (seqs [Grp 1 number, star (Cls [Space]), Grp 2 (Cls currency_symbols)], 2, double (7 / 10)),
      (seqs [Grp 1 rupee_word, star (Cls [Space]), Grp 2 number], 2, double (7 / 10)),
      (seqs [Grp 1 (plus (Cls [Digit])),
             opt (Seq (Cls [Lit CHR ''.'', Lit CHR '','']) (Grp 2 (digits 2 2)))], 2, double (5 / 10))]"

text \<open>
  \<^verbatim>\<open>amount\s*:?\s*s\s*\d+\<close>, the same with the digits as group 1, and the two
  patterns of the later test for a misread dollar sign, \<^verbatim>\<open>amount\s*:?\s*s\<close> and
  \<^verbatim>\<open>^s\s*\d+\<close>. They are searched in the lower-cased text without flags.
\<close>

definition amount_s :: rx where
  "amount_s = seqs [lit ''amount'', star (Cls [Space]), opt (lit '':''), star (Cls [Space]), lit ''s'']"

definition amount_s_digits :: rx where
  "amount_s_digits = seqs [amount_s, star (Cls [Space]), plus (Cls [Digit])]"

definition amount_s_group :: rx where
  "amount_s_group = seqs [amount_s, star (Cls [Space]), Grp 1 (plus (Cls [Digit]))]"

definition leading_s :: rx where
  "leading_s = seqs [Bol, lit ''s'', star (Cls [Space]), plus (Cls [Digit])]"

text \<open>\<^verbatim>\<open>amount|total|sum|price\<close>\<close>

definition small_value_words :: rx where
  "small_value_words = words [''amount'', ''total'', ''sum'', ''price'']"

text \<open>
  First loop: the line \<open>Amount: S92\<close>. Only \<open>ValueError\<close> is handled; \<open>float(None)\<close>
  would raise \<open>TypeError\<close>.
\<close>

fun misread_dollar_candidates :: "candidate list \<Rightarrow> detection list \<Rightarrow> py_error + candidate list" where
  "misread_dollar_candidates cands [] = Inr cands"
| "misread_dollar_candidates cands (res # rest) =
     (let text = strip (d_text res) in
      if re_search False amount_s_digits (lower text) \<noteq> None then
        (case re_search False amount_s_group (lower text) of
           None \<Rightarrow> misread_dollar_candidates cands rest
         | Some amount_match \<Rightarrow>
             (case grp amount_match 1 of
                None \<Rightarrow> Inl TypeError
              | Some amount_str \<Rightarrow>
                  (case py_float amount_str of
                     Inr a \<Rightarrow>
                       misread_dollar_candidates
                         (cands @ [\<lparr>c_amount = a, c_currency = USD, c_text = text,
                                    c_confidence = double (95 / 100)\<rparr>])
                         rest
                   | Inl e \<Rightarrow>
                       (if e = ValueError then misread_dollar_candidates cands rest else Inl e))))
      else misread_dollar_candidates cands rest)"

text \<open>
  Which group is the amount and which the currency: for two groups or more the first
  one is the amount when it starts with a digit. An empty indicator counts as none.
\<close>

definition nonempty :: "string option \<Rightarrow> string option" where
  "nonempty g = (case g of Some x \<Rightarrow> (if x = [] then None else Some x) | None \<Rightarrow> None)"

definition amount_and_indicator :: "string option list \<Rightarrow> py_error + (string option \<times> string option)" where
  "amount_and_indicator match_groups =
     (case match_groups of
        [] \<Rightarrow> Inl IndexError
      | [g0] \<Rightarrow> Inr (g0, None)
      | g0 # g1 # _ \<Rightarrow>
          bind_err (need g0) (\<lambda>first.
            if re_match False (Cls [Digit]) first \<noteq> None then Inr (g0, nonempty g1)
            else Inr (g1, nonempty g0)))"

text \<open>The two \<open>continue\<close> tests on a parsed amount: a likely year, a small value.\<close>

definition likely_year :: "pyfloat \<Rightarrow> bool" where
  "likely_year x =
     (case x of Finite a \<Rightarrow> 1900 \<le> a \<and> a \<le> 2100 \<and> is_integer a | Infinity \<Rightarrow> False)"

definition small_value :: "pyfloat \<Rightarrow> string \<Rightarrow> bool" where
  "small_value x text =
     ((case x of Finite a \<Rightarrow> a < 1 | Infinity \<Rightarrow> False) \<and>
      re_search False small_value_words (lower text) = None)"

definition currency_of :: "string \<Rightarrow> string option \<Rightarrow> currency" where
  "currency_of text currency_indicator =
     (if re_search False amount_s (lower text) \<noteq> None \<or> re_search False leading_s (lower text) \<noteq> None
      then USD
      else case currency_indicator of
             None \<Rightarrow> UNKNOWN
           | Some ci \<Rightarrow>
               (case map_of currency_map (lower ci) of
                  Some code \<Rightarrow> code
                | None \<Rightarrow> if re_match False rupee_word_short ci \<noteq> None then INR else UNKNOWN))"

text \<open>The score with its three boosts, each \<^verbatim>\<open>confidence += 0.1\<close> a float addition.\<close>

definition boosted :: "rat \<Rightarrow> string \<Rightarrow> rat" where
  "boosted score text =
     (let confidence = score;
          confidence = (if contains (lower text) ''total''
                        then double (confidence + double (1 / 10)) else confidence);
          confidence = (if contains (lower text) ''amount''
                        then double (confidence + double (1 / 10)) else confidence);
          confidence = (if contains (lower text) ''price''
                        then double (confidence + double (1 / 10)) else confidence)
      in confidence)"

text \<open>
  The test \<^verbatim>\<open>abs(candidate["amount"] - amount) < 0.01\<close>: the difference is a float
  subtraction and \<open>0.01\<close> a float. With an infinite amount the difference is \<open>inf\<close> or
  \<open>nan\<close> and the test is false.
\<close>

definition amounts_close :: "pyfloat \<Rightarrow> pyfloat \<Rightarrow> bool" where
  "amounts_close x y =
     (case (x, y) of
        (Finite a, Finite b) \<Rightarrow> \<bar>double (a - b)\<bar> < double (1 / 100)
      | _ \<Rightarrow> False)"

text \<open>
  The duplicate check: the first candidate whose amount passes that test takes the new
  score and text when the new score is higher. \<open>None\<close> stands for \<open>is_duplicate\<close>
  staying false.
\<close>

fun merge_duplicate :: "candidate list \<Rightarrow> pyfloat \<Rightarrow> rat \<Rightarrow> string \<Rightarrow> candidate list option" where
  "merge_duplicate [] a confidence text = None"
| "merge_duplicate (c # cs) a confidence text =
     (if amounts_close (c_amount c) a
      then Some ((if c_confidence c < confidence
                  then c\<lparr>c_confidence := confidence, c_text := text\<rparr> else c) # cs)
      else map_option ((#) c) (merge_duplicate cs a confidence text))"

definition add_candidate ::
  "candidate list \<Rightarrow> pyfloat \<Rightarrow> currency \<Rightarrow> rat \<Rightarrow> string \<Rightarrow> candidate list"
where
  "add_candidate cands a currency_code confidence text =
     (case merge_duplicate cands a confidence text of
        Some cands' \<Rightarrow> cands'
      | None \<Rightarrow> cands @ [\<lparr>c_amount = a, c_currency = currency_code, c_text = text,
                           c_confidence = confidence\<rparr>])"

text \<open>\<^verbatim>\<open>[^0-9.]\<close>, removed from the amount string.\<close>

definition not_numeric :: rx where
  "not_numeric = NCls [Digit, Lit CHR ''.'']"

definition replace_comma :: "string \<Rightarrow> string" where
  "replace_comma s = map (\<lambda>c. if c = CHR '','' then CHR ''.'' else c) s"

text \<open>The \<open>try\<close> body for one match; the candidates are changed only at its end.\<close>

definition candidate_from_match ::
  "candidate list \<Rightarrow> string \<Rightarrow> nat \<Rightarrow> rat \<Rightarrow> rmatch \<Rightarrow> py_error + candidate list"
where
  "candidate_from_match cands text k score m =
     bind_err (amount_and_indicator (groups k m)) (\<lambda>(amount_str, currency_indicator).
       case nonempty amount_str of
         None \<Rightarrow> Inr cands
       | Some str \<Rightarrow>
           bind_err (py_float (re_sub_empty False not_numeric (replace_comma str))) (\<lambda>a.
             if likely_year a then Inr cands
             else if small_value a text then Inr cands
             else Inr (add_candidate cands a (currency_of text currency_indicator)
                         (boosted score text) text)))"

fun candidates_from_matches ::
  "candidate list \<Rightarrow> string \<Rightarrow> nat \<Rightarrow> rat \<Rightarrow> rmatch list \<Rightarrow> candidate list"
where
  "candidates_from_matches cands text k score [] = cands"
| "candidates_from_matches cands text k score (m # matches) =
     (case candidate_from_match cands text k score m of
        Inr cands' \<Rightarrow> candidates_from_matches cands' text k score matches
      | Inl e \<Rightarrow> candidates_from_matches cands text k score matches)"

fun candidates_from_line :: "candidate list \<Rightarrow> string \<Rightarrow> (rx \<times> nat \<times> rat) list \<Rightarrow> candidate list" where
  "candidates_from_line cands text [] = cands"
| "candidates_from_line cands text ((pattern, k, score) # patterns) =
     candidates_from_line
       (candidates_from_matches cands text k score (finditer True pattern text)) text patterns"

fun amount_candidates :: "candidate list \<Rightarrow> detection list \<Rightarrow> candidate list" where
  "amount_candidates cands [] = cands"
| "amount_candidates cands (res # rest) =
     amount_candidates (candidates_from_line cands (strip (d_text res)) currency_patterns) rest"

text \<open>
  The choice among the candidates, sorted by score (stable, highest first): a line with
  \<open>total\<close> and score at least 0.7, else one with \<open>amount\<close>, else the first.
\<close>

definition select_candidate :: "candidate list \<Rightarrow> candidate option" where
  "select_candidate cands =
     (let sorted_cands = sort_key (\<lambda>c. - c_confidence c) cands in
      case sorted_cands of
        [] \<Rightarrow> None
      | best_candidate # _ \<Rightarrow>
          (case find (\<lambda>c. contains (lower (c_text c)) ''total'' \<and> double (7 / 10) \<le> c_confidence c) sorted_cands of
             Some c \<Rightarrow> Some c
           | None \<Rightarrow>
               (case find (\<lambda>c. contains (lower (c_text c)) ''amount'' \<and> double (7 / 10) \<le> c_confidence c)
                          sorted_cands of
                  Some c \<Rightarrow> Some c
                | None \<Rightarrow> Some best_candidate)))"

text \<open>Last resort: a line that is a plain number between 0 and 10000.\<close>

definition plain_number :: rx where
  "plain_number = seqs [Bol, plus (Cls [Digit]), Eol]"

fun plain_number_amount :: "detection list \<Rightarrow> pyfloat option" where
  "plain_number_amount [] = None"
| "plain_number_amount (res # rest) =
     (let text = strip (lower (d_text res)) in
      if re_search False plain_number text \<noteq> None then
        (case py_float text of
           Inr (Finite a) \<Rightarrow> if 0 < a \<and> a < 10000 then Some (Finite a) else plain_number_amount rest
         | Inr Infinity \<Rightarrow> plain_number_amount rest
         | Inl e \<Rightarrow> plain_number_amount rest)
      else plain_number_amount rest)"

text \<open>The dictionary with the keys \<open>value\<close> and \<open>currency\<close>.\<close>

record amount_data =
  a_value :: pyfloat
  a_currency :: currency

definition extract_amount_enhanced :: "detection list \<Rightarrow> py_error + amount_data" where
  "extract_amount_enhanced normalized =
     bind_err (misread_dollar_candidates [] normalized) (\<lambda>special.
       case select_candidate (amount_candidates special normalized) of
         Some c \<Rightarrow> Inr \<lparr>a_value = c_amount c, a_currency = c_currency c\<rparr>
       | None \<Rightarrow>
           (case plain_number_amount normalized of
              Some a \<Rightarrow> Inr \<lparr>a_value = a, a_currency = UNKNOWN\<rparr>
            | None \<Rightarrow> Inr \<lparr>a_value = Finite 0, a_currency = UNKNOWN\<rparr>))"

section \<open>The extraction pipeline\<close>

definition extract_receipt_data :: "detection list \<Rightarrow> py_error + receipt" where
  "extract_receipt_data ocr_results =
     (let deduplicated = deduplicated_results ocr_results in
      bind_err (extract_title_enhanced deduplicated) (\<lambda>t.
      let d = extract_date_enhanced deduplicated in
      bind_err (extract_amount_enhanced deduplicated) (\<lambda>amount_data.
        Inr \<lparr>title = t, date = d, amount = a_value amount_data, currency = a_currency amount_data,
             raw_text = map d_text deduplicated\<rparr>)))"

section \<open>The amount filter as the specification words it\<close>

text \<open>
  The specification's filter, for comparison with the code's two tests
  \<^const>\<open>likely_year\<close> and \<^const>\<open>small_value\<close>: a whole number in 1900..2100 and a
  value below 1 are both rejected unless the line contains one of the words
  \<open>amount\<close>, \<open>total\<close>, \<open>sum\<close>, \<open>price\<close>, \<open>cost\<close>, \<open>fee\<close>.
\<close>

definition has_money_keyword :: "string \<Rightarrow> bool" where
  "has_money_keyword text = (re_search False money_label (lower text) \<noteq> None)"

definition claimed_filter_passes :: "rat \<Rightarrow> string \<Rightarrow> bool" where
  "claimed_filter_passes a text =
     (\<not> (is_integer a \<and> 1900 \<le> a \<and> a \<le> 2100 \<and> \<not> has_money_keyword text) \<and>
      \<not> (a < 1 \<and> \<not> has_money_keyword text))"

section \<open>Groups that take part in every match\<close>

text \<open>
  A sufficient condition on a pattern for group \<open>n\<close> to be set in each of its matches,
  so that \<open>match.group(n)\<close> is never \<open>None\<close>.
\<close>

fun binds :: "nat \<Rightarrow> rx \<Rightarrow> bool" where
  "binds n (Grp k r) = (k = n \<or> binds n r)"
| "binds n (Seq a b) = (binds n a \<or> binds n b)"
| "binds n (Alt a b) = (binds n a \<and> binds n b)"
| "binds n (Rep lo hi r) = (0 < lo \<and> binds n r)"
| "binds n r = False"

section \<open>Evaluating the text predicates\<close>

text \<open>
  The predicates on characters are defined by code point. For evaluation each one is
  given as a formula over the eight bits of the character, lowest bit first.
\<close>

lemma isspace_bits [code]:
  "isspace (Char b0 b1 b2 b3 b4 b5 b6 b7) \<longleftrightarrow>
     (if b7 then (\<not> b6 \<and> (if b5 then (\<not> b4 \<and> (\<not> b3 \<and> (\<not> b2 \<and> (\<not> b1 \<and> \<not> b0)))) else (\<not> b4 \<and> (\<not> b3 \<and> (b2 \<and> (\<not> b1 \<and> b0)))))) else (\<not> b6 \<and> (if b5 then (\<not> b4 \<and> (\<not> b3 \<and> (\<not> b2 \<and> (\<not> b1 \<and> \<not> b0)))) else (if b4 then (b3 \<and> b2) else (b3 \<and> (if b2 then \<not> b1 else (b1 \<or> b0)))))))"
  by (cases b0; cases b1; cases b2; cases b3; cases b4; cases b5; cases b6; cases b7; simp add: isspace_def py_ord_def)

lemma isdecimal_bits [code]:
  "isdecimal (Char b0 b1 b2 b3 b4 b5 b6 b7) \<longleftrightarrow>
     (\<not> b7 \<and> (\<not> b6 \<and> (b5 \<and> (b4 \<and> (\<not> b3 \<or> (\<not> b2 \<and> \<not> b1))))))"
  by (cases b0; cases b1; cases b2; cases b3; cases b4; cases b5; cases b6; cases b7; simp add: isdecimal_def py_ord_def)

lemma isdigit_char_bits [code]:
  "isdigit_char (Char b0 b1 b2 b3 b4 b5 b6 b7) \<longleftrightarrow>
     (if b7 then (\<not> b6 \<and> (b5 \<and> (b4 \<and> (if b3 then (\<not> b2 \<and> (\<not> b1 \<and> b0)) else (\<not> b2 \<and> b1))))) else (\<not> b6 \<and> (b5 \<and> (b4 \<and> (\<not> b3 \<or> (\<not> b2 \<and> \<not> b1))))))"
  by (cases b0; cases b1; cases b2; cases b3; cases b4; cases b5; cases b6; cases b7; simp add: isdigit_char_def py_ord_def)

lemma ascii_upper_bits [code]:
  "ascii_upper (Char b0 b1 b2 b3 b4 b5 b6 b7) \<longleftrightarrow>
     (\<not> b7 \<and> (b6 \<and> (\<not> b5 \<and> (if b4 then (\<not> b3 \<or> (\<not> b2 \<and> (\<not> b1 \<or> \<not> b0))) else (b3 \<or> (b2 \<or> (b1 \<or> b0)))))))"
  by (cases b0; cases b1; cases b2; cases b3; cases b4; cases b5; cases b6; cases b7; simp add: ascii_upper_def py_ord_def)

lemma ascii_lower_bits [code]:
  "ascii_lower (Char b0 b1 b2 b3 b4 b5 b6 b7) \<longleftrightarrow>
     (\<not> b7 \<and> (b6 \<and> (b5 \<and> (if b4 then (\<not> b3 \<or> (\<not> b2 \<and> (\<not> b1 \<or> \<not> b0))) else (b3 \<or> (b2 \<or> (b1 \<or> b0)))))))"
  by (cases b0; cases b1; cases b2; cases b3; cases b4; cases b5; cases b6; cases b7; simp add: ascii_lower_def py_ord_def)

lemma lower_char_bits [code]:
  "lower_char (Char b0 b1 b2 b3 b4 b5 b6 b7) =
     (if (if b7 then (b6 \<and> (\<not> b5 \<and> (\<not> b4 \<or> (\<not> b2 \<or> (\<not> b1 \<or> \<not> b0))))) else (b6 \<and> (\<not> b5 \<and> (if b4 then (\<not> b3 \<or> (\<not> b2 \<and> (\<not> b1 \<or> \<not> b0))) else (b3 \<or> (b2 \<or> (b1 \<or> b0)))))))
      then Char b0 b1 b2 b3 b4 True b6 b7 else Char b0 b1 b2 b3 b4 b5 b6 b7)"
  by (cases b0; cases b1; cases b2; cases b3; cases b4; cases b5; cases b6; cases b7; simp add: lower_char_def py_ord_def char_of_eq_iff)

section \<open>The end-to-end scenario\<close>

text \<open>
  Claim C1. For the detections \<open>("Total: $33.71", 0.9)\<close>, \<open>("Date: 03/15/2024", 0.85)\<close>
  and \<open>("DOMINO'S PIZZA", 0.95)\<close>, whatever variants they come from, the extraction
  returns the record with title \<open>DOMINO'S PIZZA\<close>, date \<open>03/15/2024\<close>, amount 33.71 and
  currency USD; its raw text is the three lines by descending confidence.
\<close>

theorem scenario_dominos:
  "extract_receipt_data
     [\<lparr>d_text = ''Total: $33.71'', d_confidence = double (9 / 10), d_variant = v1\<rparr>,
      \<lparr>d_text = ''Date: 03/15/2024'', d_confidence = double (85 / 100), d_variant = v2\<rparr>,
      \<lparr>d_text = ''DOMINO'S PIZZA'', d_confidence = double (95 / 100), d_variant = v3\<rparr>]
   = Inr \<lparr>title = ''DOMINO'S PIZZA'', date = ''03/15/2024'', amount = float_of (3371 / 100), currency = USD,
          raw_text = [''DOMINO'S PIZZA'', ''Total: $33.71'', ''Date: 03/15/2024'']\<rparr>"
  by code_simp

section \<open>A lone year\<close>

text \<open>
  Claim C3 says that a lone detection \<open>2024\<close> never becomes the amount. The pattern
  cascade does skip it as a likely year and collects no candidate, but the last-resort
  loop then takes the line as a plain number between 0 and 10000: the extractor returns
  2024 with currency UNKNOWN.
\<close>

theorem lone_year_is_selected:
  "extract_amount_enhanced [\<lparr>d_text = ''2024'', d_confidence = c, d_variant = v\<rparr>]
   = Inr \<lparr>a_value = Finite 2024, a_currency = UNKNOWN\<rparr>"
  by code_simp

section \<open>No error escapes the extractors\<close>

text \<open>
  Group 1 is set in every match of the title patterns and of the pattern for
  \<open>Amount: S92\<close>, so the two places where the code uses \<open>group(1)\<close> outside a handler
  that would catch the exception never raise.
\<close>

lemma rep_iter_binds:
  assumes f: "\<And>bos s x. x \<in> set (f bos s) \<Longrightarrow> n \<in> fst ` set (snd x)"
  shows "0 < lo \<Longrightarrow> x \<in> set (rep_iter f fuel lo hi bos s) \<Longrightarrow> n \<in> fst ` set (snd x)"
proof (induction fuel arbitrary: lo hi bos s x)
  case Nil
  then show ?case by simp
next
  case (Cons a fuel)
  from Cons.prems obtain s1 c1 s2 c2 where
    "(s1, c1) \<in> set (f bos s)" and "x = (s2, c1 @ c2)"
    by (auto split: if_splits)
  with f[of "(s1, c1)" bos s] show ?case by auto
qed

lemma ms_binds:
  "binds n r \<Longrightarrow> x \<in> set (ms ic r bos s) \<Longrightarrow> n \<in> fst ` set (snd x)"
proof (induction r arbitrary: bos s x)
  case (Seq a b)
  from Seq.prems(2) obtain s1 c1 s2 c2 where
    a: "(s1, c1) \<in> set (ms ic a bos s)" and
    b: "(s2, c2) \<in> set (ms ic b (bos \<and> length s1 = length s) s1)" and x: "x = (s2, c1 @ c2)"
    by auto
  from Seq.prems(1) have "binds n a \<or> binds n b" by simp
  then show ?case
  proof
    assume "binds n a"
    from Seq.IH(1)[OF this a] x show ?thesis by auto
  next
    assume "binds n b"
    from Seq.IH(2)[OF this b] x show ?thesis by auto
  qed
next
  case (Alt a b)
  then show ?case by (cases x) auto
next
  case (Rep lo hi r)
  then have lo: "0 < lo" and r: "binds n r" by simp_all
  from Rep.prems(2) have "x \<in> set (rep_iter (ms ic r) s lo hi bos s)" by simp
  with lo show ?case
    using rep_iter_binds[of "ms ic r" n lo x s hi bos s] Rep.IH[OF r] by blast
next
  case (Grp k r)
  from Grp.prems(2) obtain s1 c1 where
    r: "(s1, c1) \<in> set (ms ic r bos s)" and x: "x = (s1, c1 @ [(k, take (length s - length s1) s)])"
    by auto
  show ?case
  proof (cases "k = n")
    case True
    with x show ?thesis by simp
  next
    case False
    with Grp.prems(1) have "binds n r" by simp
    from Grp.IH[OF this r] x show ?thesis by auto
  qed
qed simp_all

lemma match_at_binds:
  assumes "binds n r" and "match_at ic r bos s = Some m"
  shows "\<exists>g. grp m n = Some g"
proof -
  from assms(2) obtain rest c tl where
    ms: "ms ic r bos s = (rest, c) # tl" and m: "snd (snd m) = c"
    by (auto simp: match_at_def split: list.splits)
  from ms have hd: "(rest, c) \<in> set (ms ic r bos s)" by simp
  from ms_binds[OF assms(1) hd] have "n \<in> fst ` set (rev c)" by simp
  then have "map_of (rev c) n \<noteq> None" by (simp add: map_of_eq_None_iff)
  with m show ?thesis by (auto simp: grp_def)
qed

lemma search_at_binds:
  "binds n r \<Longrightarrow> search_at ic r bos s = Some m \<Longrightarrow> \<exists>g. grp m n = Some g"
  by (induction s arbitrary: bos) (auto split: option.splits dest: match_at_binds)

lemma re_search_binds:
  "binds n r \<Longrightarrow> re_search ic r s = Some m \<Longrightarrow> \<exists>g. grp m n = Some g"
  unfolding re_search_def by (rule search_at_binds)

lemma title_patterns_bind: "\<forall>p\<in>set title_patterns. binds 1 p"
  by (simp add: title_patterns_def title_label_pattern_def title_line_pattern_def
      title_noun_pattern_def plus_def)

lemma amount_s_group_binds: "binds 1 amount_s_group"
  by (simp add: amount_s_group_def plus_def)

lemma title_from_pattern_total:
  "binds 1 p \<Longrightarrow> \<exists>t. title_from_pattern p text = Inr t"
  by (auto simp: title_from_pattern_def Let_def split: option.splits dest: re_search_binds)

lemma title_first_pass_line_total:
  "\<forall>p\<in>set ps. binds 1 p \<Longrightarrow> \<exists>t. title_first_pass_line ps text = Inr t"
proof (induction ps)
  case Nil
  then show ?case by simp
next
  case (Cons p ps)
  then obtain t where "title_from_pattern p text = Inr t"
    using title_from_pattern_total[of p] by auto
  with Cons show ?case by (cases t) auto
qed

lemma title_first_pass_total: "\<exists>t. title_first_pass normalized = Inr t"
proof (induction normalized)
  case Nil
  then show ?case by simp
next
  case (Cons res rest)
  obtain t where "title_first_pass_line title_patterns (strip (d_text res)) = Inr t"
    using title_first_pass_line_total[OF title_patterns_bind] by blast
  with Cons show ?case by (cases t) auto
qed

lemma extract_title_enhanced_total: "\<exists>t. extract_title_enhanced normalized = Inr t"
proof -
  obtain t where "title_first_pass normalized = Inr t"
    using title_first_pass_total by blast
  then show ?thesis
    by (cases t) (auto simp: extract_title_enhanced_def split: list.splits option.splits)
qed

lemma py_float_error: "py_float s = Inl e \<Longrightarrow> e = ValueError"
  by (auto simp: py_float_def Let_def split: list.splits if_splits)

lemma misread_dollar_candidates_total:
  "\<exists>cs. misread_dollar_candidates cands normalized = Inr cs"
proof (induction normalized arbitrary: cands)
  case Nil
  then show ?case by simp
next
  case (Cons res rest)
  show ?case
  proof (cases "re_search False amount_s_group (lower (strip (d_text res)))")
    case None
    then show ?thesis using Cons by (simp add: Let_def)
  next
    case (Some m)
    then obtain g where g: "grp m 1 = Some g"
      using re_search_binds[OF amount_s_group_binds] by blast
    show ?thesis
    proof (cases "py_float g")
      case (Inl e)
      then have "e = ValueError" by (rule py_float_error)
      with Inl Some g Cons show ?thesis by (simp add: Let_def)
    next
      case (Inr a)
      with Some g Cons show ?thesis by (simp add: Let_def)
    qed
  qed
qed

lemma extract_amount_enhanced_total: "\<exists>a. extract_amount_enhanced normalized = Inr a"
proof -
  obtain cs where "misread_dollar_candidates [] normalized = Inr cs"
    using misread_dollar_candidates_total by blast
  then show ?thesis
    by (simp add: extract_amount_enhanced_def bind_err_def split: option.splits)
qed

lemma extract_receipt_data_total: "\<exists>r. extract_receipt_data ocr_results = Inr r"
proof -
  obtain t where t: "extract_title_enhanced (deduplicated_results ocr_results) = Inr t"
    using extract_title_enhanced_total by blast
  obtain a where a: "extract_amount_enhanced (deduplicated_results ocr_results) = Inr a"
    using extract_amount_enhanced_total by blast
  show ?thesis by (simp add: extract_receipt_data_def Let_def bind_err_def t a)
qed

lemma extract_receipt_data_fields:
  assumes "extract_receipt_data ocr_results = Inr r"
  shows "raw_text r = map d_text (deduplicated_results ocr_results)"
    and "extract_title_enhanced (deduplicated_results ocr_results) = Inr (title r)"
    and "date r = extract_date_enhanced (deduplicated_results ocr_results)"
    and "extract_amount_enhanced (deduplicated_results ocr_results)
         = Inr \<lparr>a_value = amount r, a_currency = currency r\<rparr>"
  using assms
  by (auto simp: extract_receipt_data_def Let_def bind_err_def split: sum.splits)

section \<open>Ranking and deduplication\<close>

lemma deduplicate_subseq: "subseq (deduplicate seen xs) xs"
  by (induction xs arbitrary: seen) auto

lemma deduplicate_not_seen: "r \<in> set (deduplicate seen xs) \<Longrightarrow> d_text r \<notin> seen"
  by (induction xs arbitrary: seen) (auto split: if_splits)

lemma deduplicate_distinct: "distinct (map d_text (deduplicate seen xs))"
proof (induction xs arbitrary: seen)
  case Nil
  then show ?case by simp
next
  case (Cons x xs)
  show ?case
  proof (cases "d_text x \<in> seen")
    case True
    then show ?thesis using Cons.IH by simp
  next
    case False
    have "d_text x \<notin> d_text ` set (deduplicate (insert (d_text x) seen) xs)"
      using deduplicate_not_seen by fastforce
    then show ?thesis using False Cons.IH by simp
  qed
qed

lemma deduplicate_texts: "d_text ` set (deduplicate seen xs) = d_text ` set xs - seen"
  by (induction xs arbitrary: seen) auto

lemma subseq_sorted_wrt: "subseq xs ys \<Longrightarrow> sorted_wrt P ys \<Longrightarrow> sorted_wrt P xs"
proof (induction rule: list_emb.induct)
  case (list_emb_Nil ys)
  then show ?case by simp
next
  case (list_emb_Cons xs ys y)
  then show ?case by simp
next
  case (list_emb_Cons2 x y xs ys)
  then have "set xs \<subseteq> set ys" by (auto dest: list_emb_set)
  with list_emb_Cons2 show ?case by auto
qed

lemma deduplicate_best:
  "sorted_wrt (\<lambda>a b. d_confidence b \<le> d_confidence a) xs \<Longrightarrow> r \<in> set (deduplicate seen xs) \<Longrightarrow>
   r' \<in> set xs \<Longrightarrow> d_text r' = d_text r \<Longrightarrow> d_confidence r' \<le> d_confidence r"
proof (induction xs arbitrary: seen)
  case Nil
  then show ?case by simp
next
  case (Cons x xs)
  have sorted_tl: "sorted_wrt (\<lambda>a b. d_confidence b \<le> d_confidence a) xs"
    and top: "\<forall>y\<in>set xs. d_confidence y \<le> d_confidence x"
    using Cons.prems(1) by simp_all
  show ?case
  proof (cases "d_text x \<in> seen")
    case True
    then have r_in: "r \<in> set (deduplicate seen xs)" using Cons.prems(2) by simp
    then have "d_text r \<notin> seen" by (rule deduplicate_not_seen)
    with True Cons.prems(4) have "r' \<noteq> x" by auto
    with Cons.prems(3) have "r' \<in> set xs" by simp
    with Cons.IH[OF sorted_tl r_in] Cons.prems(4) show ?thesis by simp
  next
    case False
    then have r_cases: "r = x \<or> r \<in> set (deduplicate (insert (d_text x) seen) xs)"
      using Cons.prems(2) by auto
    show ?thesis
    proof (cases "r = x")
      case True
      with Cons.prems(3) top show ?thesis by auto
    next
      case False
      with r_cases have r_in: "r \<in> set (deduplicate (insert (d_text x) seen) xs)" by simp
      then have "d_text r \<noteq> d_text x" using deduplicate_not_seen by fastforce
      with Cons.prems(4) have "r' \<noteq> x" by auto
      with Cons.prems(3) have "r' \<in> set xs" by simp
      with Cons.IH[OF sorted_tl r_in] Cons.prems(4) show ?thesis by simp
    qed
  qed
qed

lemma sort_by_confidence_sorted:
  "sorted_wrt (\<lambda>a b. d_confidence b \<le> d_confidence a) (sort_by_confidence xs)"
proof -
  have "sorted (map (\<lambda>r. - d_confidence r) (sort_by_confidence xs))"
    unfolding sort_by_confidence_def by (rule sorted_sort_key)
  then show ?thesis by (simp add: sorted_map)
qed

lemma sort_by_confidence_stable:
  "filter (\<lambda>r. d_confidence r = c) (sort_by_confidence xs) = filter (\<lambda>r. d_confidence r = c) xs"
  using sort_key_stable[of "\<lambda>r. - d_confidence r" "- c" xs]
  by (simp add: sort_by_confidence_def)

lemma deduplicated_results_props:
  fixes ocr_results
  defines "lines \<equiv> normalized_results ocr_results"
  defines "kept \<equiv> deduplicated_results ocr_results"
  shows "distinct (map d_text kept)"
    and "set kept \<subseteq> set lines"
    and "d_text ` set kept = d_text ` set lines"
    and "\<forall>r\<in>set kept. \<forall>r'\<in>set lines. d_text r' = d_text r \<longrightarrow> d_confidence r' \<le> d_confidence r"
    and "sorted_wrt (\<lambda>a b. d_confidence b \<le> d_confidence a) kept"
    and "\<forall>c. subseq (filter (\<lambda>r. d_confidence r = c) kept) (filter (\<lambda>r. d_confidence r = c) lines)"
proof -
  let ?sorted = "sort_by_confidence lines"
  have kept: "kept = deduplicate {} ?sorted"
    by (simp add: kept_def lines_def deduplicated_results_def)
  have sub: "subseq kept ?sorted" unfolding kept by (rule deduplicate_subseq)
  have set_sorted: "set ?sorted = set lines" by (simp add: sort_by_confidence_def)
  show "distinct (map d_text kept)" unfolding kept by (rule deduplicate_distinct)
  show "set kept \<subseteq> set lines" using sub set_sorted by (auto dest: list_emb_set)
  show "d_text ` set kept = d_text ` set lines"
    unfolding kept using deduplicate_texts[of "{}" ?sorted] set_sorted by simp
  show "\<forall>r\<in>set kept. \<forall>r'\<in>set lines. d_text r' = d_text r \<longrightarrow> d_confidence r' \<le> d_confidence r"
    unfolding kept using deduplicate_best[OF sort_by_confidence_sorted] set_sorted by blast
  show "sorted_wrt (\<lambda>a b. d_confidence b \<le> d_confidence a) kept"
    using sub sort_by_confidence_sorted by (rule subseq_sorted_wrt)
  show "\<forall>c. subseq (filter (\<lambda>r. d_confidence r = c) kept) (filter (\<lambda>r. d_confidence r = c) lines)"
  proof
    fix c
    have "subseq (filter (\<lambda>r. d_confidence r = c) kept) (filter (\<lambda>r. d_confidence r = c) ?sorted)"
      using sub by (rule subseq_filter)
    then show "subseq (filter (\<lambda>r. d_confidence r = c) kept) (filter (\<lambda>r. d_confidence r = c) lines)"
      by (simp add: sort_by_confidence_stable)
  qed
qed

text \<open>
  Claim C8. For every input the extraction returns a record whose \<open>raw_text\<close> is the
  list of texts of the deduplicated detections: no text occurs twice, every text that
  survived normalisation occurs, each retained detection has the highest confidence
  among the detections with its text, the list is ordered by descending confidence,
  and detections of equal confidence keep the order in which the input had them.
\<close>

theorem raw_text_deduplicated:
  "\<exists>r. extract_receipt_data ocr_results = Inr r \<and>
       raw_text r = map d_text (deduplicated_results ocr_results) \<and>
       distinct (raw_text r) \<and>
       set (raw_text r) = d_text ` set (normalized_results ocr_results) \<and>
       set (deduplicated_results ocr_results) \<subseteq> set (normalized_results ocr_results) \<and>
       (\<forall>k\<in>set (deduplicated_results ocr_results). \<forall>l\<in>set (normalized_results ocr_results).
          d_text l = d_text k \<longrightarrow> d_confidence l \<le> d_confidence k) \<and>
       sorted_wrt (\<lambda>a b. d_confidence b \<le> d_confidence a) (deduplicated_results ocr_results) \<and>
       (\<forall>c. subseq (filter (\<lambda>l. d_confidence l = c) (deduplicated_results ocr_results))
                   (filter (\<lambda>l. d_confidence l = c) (normalized_results ocr_results)))"
proof -
  obtain r where r: "extract_receipt_data ocr_results = Inr r"
    using extract_receipt_data_total by blast
  have raw: "raw_text r = map d_text (deduplicated_results ocr_results)"
    using r by (rule extract_receipt_data_fields(1))
  have "set (raw_text r) = d_text ` set (normalized_results ocr_results)"
    using deduplicated_results_props(3)[of ocr_results] by (simp add: raw)
  with r raw deduplicated_results_props(1,2,4,5,6)[of ocr_results] show ?thesis
    by (intro exI[of _ r]) simp
qed

theorem raw_text_deduplicated_witness:
  "\<exists>r. extract_receipt_data
          [\<lparr>d_text = ''AB'', d_confidence = double (5 / 10), d_variant = ''binary''\<rparr>,
           \<lparr>d_text = ''CD'', d_confidence = double (9 / 10), d_variant = ''binary''\<rparr>,
           \<lparr>d_text = '' AB '', d_confidence = double (8 / 10), d_variant = ''adaptive''\<rparr>,
           \<lparr>d_text = ''EF'', d_confidence = double (9 / 10), d_variant = ''adaptive''\<rparr>] = Inr r \<and>
       raw_text r = [''CD'', ''EF'', ''AB''] \<and> distinct (raw_text r)"
proof -
  let ?inp = "[\<lparr>d_text = ''AB'', d_confidence = double (5 / 10), d_variant = ''binary''\<rparr>,
           \<lparr>d_text = ''CD'', d_confidence = double (9 / 10), d_variant = ''binary''\<rparr>,
           \<lparr>d_text = '' AB '', d_confidence = double (8 / 10), d_variant = ''adaptive''\<rparr>,
           \<lparr>d_text = ''EF'', d_confidence = double (9 / 10), d_variant = ''adaptive''\<rparr>]"
  have kept: "map d_text (deduplicated_results ?inp) = [''CD'', ''EF'', ''AB'']"
    by code_simp
  from raw_text_deduplicated[of ?inp] obtain r where
    "extract_receipt_data ?inp = Inr r" and
    "raw_text r = map d_text (deduplicated_results ?inp)" and "distinct (raw_text r)"
    by blast
  with kept show ?thesis by auto
qed

section \<open>Defaults when nothing is found\<close>

lemma scan_no_match: "search_at ic r bos s = None \<Longrightarrow> scan ic r bos 0 s = []"
  by (induction s arbitrary: bos) (auto split: option.splits)

lemma finditer_no_match: "re_search ic r s = None \<Longrightarrow> finditer ic r s = []"
  by (simp add: re_search_def finditer_def scan_no_match)

lemma normalized_results_blank:
  "\<forall>d\<in>set rs. length (strip (d_text d)) < 2 \<Longrightarrow> normalized_results rs = []"
  by (induction rs) (auto simp: Let_def)

lemma extract_receipt_data_empty:
  assumes "deduplicated_results rs = []"
  shows "extract_receipt_data rs =
    Inr \<lparr>title = ''Untitled Receipt'', date = [], amount = Finite 0, currency = UNKNOWN, raw_text = []\<rparr>"
  by (simp add: extract_receipt_data_def assms bind_err_def extract_title_enhanced_def
      extract_date_enhanced_def direct_matches_def extract_amount_enhanced_def select_candidate_def)

lemma title_first_pass_line_no_match:
  "\<forall>p\<in>set ps. re_search True p t = None \<Longrightarrow> title_first_pass_line ps t = Inr None"
  by (induction ps) (auto simp: title_from_pattern_def)

lemma title_first_pass_no_match:
  "\<forall>l\<in>set ls. \<forall>p\<in>set title_patterns. re_search True p (strip (d_text l)) = None \<Longrightarrow>
   title_first_pass ls = Inr None"
  by (induction ls) (auto simp: title_first_pass_line_no_match)

lemma first_meaningful_line_none:
  "\<forall>l\<in>set ls. length (strip (d_text l)) < 3 \<or> isdigit (strip (d_text l)) \<Longrightarrow>
   first_meaningful_line ls = None"
  by (induction ls) (auto simp: Let_def)

lemma title_placeholder:
  assumes "\<forall>l\<in>set ls. \<forall>p\<in>set title_patterns. re_search True p (strip (d_text l)) = None"
    and "merchant_name_candidates [] ls = []"
    and "\<forall>l\<in>set ls. length (strip (d_text l)) < 3 \<or> isdigit (strip (d_text l))"
  shows "extract_title_enhanced ls = Inr ''Untitled Receipt''"
  using title_first_pass_no_match[OF assms(1)] assms(2) first_meaningful_line_none[OF assms(3)]
  by (simp add: extract_title_enhanced_def)

lemma date_labelled_no_match:
  "\<forall>l\<in>set ls. re_search False dmy_pattern (strip (d_text l)) = None \<Longrightarrow> date_labelled ls = None"
  by (induction ls) (auto simp: Let_def findall3_def finditer_no_match)

lemma date_direct_no_match:
  "\<forall>l\<in>set ls. re_search False dmy_pattern (strip (d_text l)) = None \<Longrightarrow> date_direct ls = None"
  by (induction ls) auto

lemma date_forced_no_match:
  "\<forall>l\<in>set ls. re_search False dmy_pattern (strip (d_text l)) = None \<Longrightarrow> date_forced ls = None"
  by (induction ls) auto

lemma date_table_line_no_match:
  "\<forall>(p, k)\<in>set ps. re_search True p t = None \<Longrightarrow> date_table_line ps t = None"
  by (induction ps) auto

lemma date_table_no_match:
  "\<forall>l\<in>set ls. \<forall>(p, k)\<in>set date_patterns. re_search True p (strip (d_text l)) = None \<Longrightarrow>
   date_table ls = None"
  by (induction ls) (auto simp: date_table_line_no_match)

lemma direct_matches_no_match:
  "\<forall>l\<in>set ls. re_search False dmy_pattern (strip (d_text l)) = None \<Longrightarrow> direct_matches ls = []"
  by (induction ls) (auto simp: direct_matches_def findall3_def finditer_no_match)

lemma date_empty:
  assumes "\<forall>l\<in>set ls. re_search False dmy_pattern (strip (d_text l)) = None"
    and "\<forall>l\<in>set ls. \<forall>(p, k)\<in>set date_patterns. re_search True p (strip (d_text l)) = None"
  shows "extract_date_enhanced ls = []"
  by (simp add: extract_date_enhanced_def date_labelled_no_match[OF assms(1)]
      date_direct_no_match[OF assms(1)] date_forced_no_match[OF assms(1)]
      date_table_no_match[OF assms(2)] direct_matches_no_match[OF assms(1)])

lemma misread_dollar_no_match:
  "\<forall>l\<in>set ls. re_search False amount_s_digits (lower (strip (d_text l))) = None \<Longrightarrow>
   misread_dollar_candidates cands ls = Inr cands"
  by (induction ls arbitrary: cands) (auto simp: Let_def)

lemma candidates_from_line_no_match:
  "\<forall>(p, k, sc)\<in>set ps. re_search True p t = None \<Longrightarrow> candidates_from_line cands t ps = cands"
  by (induction ps arbitrary: cands) (auto simp: finditer_no_match)

lemma amount_candidates_no_match:
  "\<forall>l\<in>set ls. \<forall>(p, k, sc)\<in>set currency_patterns. re_search True p (strip (d_text l)) = None \<Longrightarrow>
   amount_candidates cands ls = cands"
  by (induction ls arbitrary: cands) (auto simp: candidates_from_line_no_match)

lemma plain_number_no_match:
  "\<forall>l\<in>set ls. re_search False plain_number (strip (lower (d_text l))) = None \<Longrightarrow>
   plain_number_amount ls = None"
  by (induction ls) (auto simp: Let_def)

lemma amount_default:
  assumes "\<forall>l\<in>set ls. re_search False amount_s_digits (lower (strip (d_text l))) = None"
    and "\<forall>l\<in>set ls. \<forall>(p, k, sc)\<in>set currency_patterns. re_search True p (strip (d_text l)) = None"
    and "\<forall>l\<in>set ls. re_search False plain_number (strip (lower (d_text l))) = None"
  shows "extract_amount_enhanced ls = Inr \<lparr>a_value = Finite 0, a_currency = UNKNOWN\<rparr>"
  by (simp add: extract_amount_enhanced_def bind_err_def misread_dollar_no_match[OF assms(1)]
      amount_candidates_no_match[OF assms(2)] plain_number_no_match[OF assms(3)]
      select_candidate_def)

text \<open>
  Claim C9. For every input list the extraction returns a record and no error. When
  every text is blank or a single character after stripping (in particular for the
  empty list) the record is the default one. In general, over the deduplicated lines:
  the title is the placeholder when no title pattern matches, the second pass collects
  no candidate and no line of three characters or more is left that is not a number;
  the date is empty when no date pattern matches a line; the amount is 0 with currency
  UNKNOWN when no amount pattern matches a line and no line is a plain number.
\<close>

theorem extraction_total_with_defaults:
  "(\<exists>r. extract_receipt_data ocr_results = Inr r) \<and>
   ((\<forall>d\<in>set ocr_results. length (strip (d_text d)) < 2) \<longrightarrow>
      extract_receipt_data ocr_results =
        Inr \<lparr>title = ''Untitled Receipt'', date = [], amount = Finite 0, currency = UNKNOWN, raw_text = []\<rparr>) \<and>
   (\<forall>r. extract_receipt_data ocr_results = Inr r \<longrightarrow>
      (((\<forall>l\<in>set (deduplicated_results ocr_results).
           \<forall>p\<in>set title_patterns. re_search True p (strip (d_text l)) = None) \<and>
        merchant_name_candidates [] (deduplicated_results ocr_results) = [] \<and>
        (\<forall>l\<in>set (deduplicated_results ocr_results).
           length (strip (d_text l)) < 3 \<or> isdigit (strip (d_text l)))
        \<longrightarrow> title r = ''Untitled Receipt'') \<and>
       ((\<forall>l\<in>set (deduplicated_results ocr_results).
           re_search False dmy_pattern (strip (d_text l)) = None) \<and>
        (\<forall>l\<in>set (deduplicated_results ocr_results).
           \<forall>(p, k)\<in>set date_patterns. re_search True p (strip (d_text l)) = None)
        \<longrightarrow> date r = []) \<and>
       ((\<forall>l\<in>set (deduplicated_results ocr_results).
           re_search False amount_s_digits (lower (strip (d_text l))) = None) \<and>
        (\<forall>l\<in>set (deduplicated_results ocr_results).
           \<forall>(p, k, sc)\<in>set currency_patterns. re_search True p (strip (d_text l)) = None) \<and>
        (\<forall>l\<in>set (deduplicated_results ocr_results).
           re_search False plain_number (strip (lower (d_text l))) = None)
        \<longrightarrow> amount r = Finite 0 \<and> currency r = UNKNOWN)))"
proof (intro conjI allI impI)
  show "\<exists>r. extract_receipt_data ocr_results = Inr r"
    by (rule extract_receipt_data_total)
next
  assume "\<forall>d\<in>set ocr_results. length (strip (d_text d)) < 2"
  then have "deduplicated_results ocr_results = []"
    by (simp add: deduplicated_results_def sort_by_confidence_def normalized_results_blank)
  then show "extract_receipt_data ocr_results =
      Inr \<lparr>title = ''Untitled Receipt'', date = [], amount = Finite 0, currency = UNKNOWN, raw_text = []\<rparr>"
    by (rule extract_receipt_data_empty)
next
  fix r
  assume r: "extract_receipt_data ocr_results = Inr r"
    and h: "(\<forall>l\<in>set (deduplicated_results ocr_results).
           \<forall>p\<in>set title_patterns. re_search True p (strip (d_text l)) = None) \<and>
        merchant_name_candidates [] (deduplicated_results ocr_results) = [] \<and>
        (\<forall>l\<in>set (deduplicated_results ocr_results).
           length (strip (d_text l)) < 3 \<or> isdigit (strip (d_text l)))"
  from h have "extract_title_enhanced (deduplicated_results ocr_results) = Inr ''Untitled Receipt''"
    by (intro title_placeholder) simp_all
  with extract_receipt_data_fields(2)[OF r] show "title r = ''Untitled Receipt''" by simp
next
  fix r
  assume r: "extract_receipt_data ocr_results = Inr r"
    and h: "(\<forall>l\<in>set (deduplicated_results ocr_results).
           re_search False dmy_pattern (strip (d_text l)) = None) \<and>
        (\<forall>l\<in>set (deduplicated_results ocr_results).
           \<forall>(p, k)\<in>set date_patterns. re_search True p (strip (d_text l)) = None)"
  from h have "extract_date_enhanced (deduplicated_results ocr_results) = []"
    by (intro date_empty) simp_all
  with extract_receipt_data_fields(3)[OF r] show "date r = []" by simp
next
  fix r
  assume r: "extract_receipt_data ocr_results = Inr r"
    and h: "(\<forall>l\<in>set (deduplicated_results ocr_results).
           re_search False amount_s_digits (lower (strip (d_text l))) = None) \<and>
        (\<forall>l\<in>set (deduplicated_results ocr_results).
           \<forall>(p, k, sc)\<in>set currency_patterns. re_search True p (strip (d_text l)) = None) \<and>
        (\<forall>l\<in>set (deduplicated_results ocr_results).
           re_search False plain_number (strip (lower (d_text l))) = None)"
  from h have "extract_amount_enhanced (deduplicated_results ocr_results)
      = Inr \<lparr>a_value = Finite 0, a_currency = UNKNOWN\<rparr>"
    by (intro amount_default) simp_all
  with extract_receipt_data_fields(4)[OF r] show "amount r = Finite 0" and "currency r = UNKNOWN"
    by simp_all
qed

theorem extraction_total_with_defaults_witness:
  "extract_receipt_data [\<lparr>d_text = '' x '', d_confidence = double (9 / 10), d_variant = ''binary''\<rparr>] =
     Inr \<lparr>title = ''Untitled Receipt'', date = [], amount = Finite 0, currency = UNKNOWN, raw_text = []\<rparr> \<and>
   (\<exists>r. extract_receipt_data [\<lparr>d_text = ''ab'', d_confidence = double (9 / 10), d_variant = ''binary''\<rparr>] = Inr r \<and>
        title r = ''Untitled Receipt'' \<and> date r = [] \<and> amount r = Finite 0 \<and> currency r = UNKNOWN)"
proof -
  let ?blank = "[\<lparr>d_text = '' x '', d_confidence = double (9 / 10), d_variant = ''binary''\<rparr>]"
  let ?inp = "[\<lparr>d_text = ''ab'', d_confidence = double (9 / 10), d_variant = ''binary''\<rparr>]"
  have h: "(\<forall>d\<in>set ?blank. length (strip (d_text d)) < 2) \<and>
        ((\<forall>l\<in>set (deduplicated_results ?inp).
           \<forall>p\<in>set title_patterns. re_search True p (strip (d_text l)) = None) \<and>
        merchant_name_candidates [] (deduplicated_results ?inp) = [] \<and>
        (\<forall>l\<in>set (deduplicated_results ?inp).
           length (strip (d_text l)) < 3 \<or> isdigit (strip (d_text l)))) \<and>
        ((\<forall>l\<in>set (deduplicated_results ?inp).
           re_search False dmy_pattern (strip (d_text l)) = None) \<and>
        (\<forall>l\<in>set (deduplicated_results ?inp).
           \<forall>(p, k)\<in>set date_patterns. re_search True p (strip (d_text l)) = None)) \<and>
        ((\<forall>l\<in>set (deduplicated_results ?inp).
           re_search False amount_s_digits (lower (strip (d_text l))) = None) \<and>
        (\<forall>l\<in>set (deduplicated_results ?inp).
           \<forall>(p, k, sc)\<in>set currency_patterns. re_search True p (strip (d_text l)) = None) \<and>
        (\<forall>l\<in>set (deduplicated_results ?inp).
           re_search False plain_number (strip (lower (d_text l))) = None))"
    by code_simp
  from h extraction_total_with_defaults[of ?blank]
  have blank: "extract_receipt_data ?blank =
     Inr \<lparr>title = ''Untitled Receipt'', date = [], amount = Finite 0, currency = UNKNOWN, raw_text = []\<rparr>"
    by (elim conjE) (rule mp, assumption+)
  from extraction_total_with_defaults[of ?inp] obtain r where
    r: "extract_receipt_data ?inp = Inr r" by (elim conjE exE)
  from extraction_total_with_defaults[of ?inp] r h
  have "title r = ''Untitled Receipt'' \<and> date r = [] \<and> amount r = Finite 0 \<and> currency r = UNKNOWN"
    by (elim conjE allE[of _ r]) (intro conjI; (drule (1) mp)?; (elim conjE)?; (drule mp, intro conjI, assumption+)?; (elim conjE)?; assumption?)
  with r blank show ?thesis by (intro conjI exI[of _ r]) simp_all
qed

section \<open>The day and month of a numeric date\<close>









section \<open>The amount filter\<close>

text \<open>
  Claim C4 lets a year-like value and a small value pass when the line has a monetary
  keyword. In the code the year test has no such exception, and the small-value test
  looks for \<open>amount\<close>, \<open>total\<close>, \<open>sum\<close> and \<open>price\<close> only: the value 2024 of the line
  \<open>Total: 2024\<close> and the value 0.50 of the line \<open>Fee: 0.50\<close> pass the filter as
  claimed, and the code rejects them from every pattern, leaving no candidate.
\<close>

theorem filter_rejects_labelled_year_and_fee:
  "claimed_filter_passes 2024 ''Total: 2024'' \<and>
   likely_year (Finite 2024) \<and>
   candidates_from_line [] ''Total: 2024'' currency_patterns = [] \<and>
   claimed_filter_passes (1 / 2) ''Fee: 0.50'' \<and>
   small_value (Finite (1 / 2)) ''Fee: 0.50'' \<and>
   candidates_from_line [] ''Fee: 0.50'' currency_patterns = []"
  by code_simp

text \<open>
  Claim C4, amended. For a match whose amount string parses to the value \<open>a\<close>: the
  candidate list stays as it is when \<open>a\<close> is a whole number in 1900..2100, whatever
  the line contains, and when \<open>a\<close> is below 1 and the lower-cased line contains none of
  \<open>amount\<close>, \<open>total\<close>, \<open>sum\<close>, \<open>price\<close>; every other value goes on to the duplicate check
  and is merged or appended.
\<close>

theorem amount_filter:
  assumes "amount_and_indicator (groups k m) = Inr (Some str, currency_indicator)"
    and "str \<noteq> []"
    and "py_float (re_sub_empty False not_numeric (replace_comma str)) = Inr x"
  shows "candidate_from_match cands text k score m =
     Inr (if (case x of
                Finite a \<Rightarrow>
                  (1900 \<le> a \<and> a \<le> 2100 \<and> is_integer a) \<or>
                  (a < 1 \<and> re_search False small_value_words (lower text) = None)
              | Infinity \<Rightarrow> False)
          then cands
          else add_candidate cands x (currency_of text currency_indicator) (boosted score text)
                 text)"
  using assms
  by (cases x)
     (simp_all add: candidate_from_match_def bind_err_def nonempty_def likely_year_def
        small_value_def)

theorem amount_filter_witness:
  "candidate_from_match [] ''Total: 2024'' 1 (double (9 / 10)) (''Total: 2024'', [], [(1, ''2024'')])
     = Inr [] \<and>
   candidate_from_match [] ''Total: 45'' 1 (double (9 / 10)) (''Total: 45'', [], [(1, ''45'')]) =
     Inr [\<lparr>c_amount = Finite 45, c_currency = UNKNOWN, c_text = ''Total: 45'', c_confidence = 1\<rparr>]"
proof -
  let ?m = "(''Total: 2024'', [], [(1, ''2024'')])"
  let ?n = "(''Total: 45'', [], [(1, ''45'')])"
  let ?year = "if (case Finite 2024 of
                Finite a \<Rightarrow>
                  (1900 \<le> a \<and> a \<le> 2100 \<and> is_integer a) \<or>
                  (a < 1 \<and> re_search False small_value_words (lower ''Total: 2024'') = None)
              | Infinity \<Rightarrow> False)
          then []
          else add_candidate [] (Finite 2024) (currency_of ''Total: 2024'' None)
                 (boosted (double (9 / 10)) ''Total: 2024'') ''Total: 2024''"
  let ?sum = "if (case Finite 45 of
                Finite a \<Rightarrow>
                  (1900 \<le> a \<and> a \<le> 2100 \<and> is_integer a) \<or>
                  (a < 1 \<and> re_search False small_value_words (lower ''Total: 45'') = None)
              | Infinity \<Rightarrow> False)
          then []
          else add_candidate [] (Finite 45) (currency_of ''Total: 45'' None)
                 (boosted (double (9 / 10)) ''Total: 45'') ''Total: 45''"
  have h: "amount_and_indicator (groups 1 ?m) = Inr (Some ''2024'', None) \<and> ''2024'' \<noteq> [] \<and>
      py_float (re_sub_empty False not_numeric (replace_comma ''2024'')) = Inr (Finite 2024) \<and>
      ?year = [] \<and>
      amount_and_indicator (groups 1 ?n) = Inr (Some ''45'', None) \<and> ''45'' \<noteq> [] \<and>
      py_float (re_sub_empty False not_numeric (replace_comma ''45'')) = Inr (Finite 45) \<and>
      ?sum = [\<lparr>c_amount = Finite 45, c_currency = UNKNOWN, c_text = ''Total: 45'', c_confidence = 1\<rparr>]"
    by code_simp
  have "candidate_from_match [] ''Total: 2024'' 1 (double (9 / 10)) ?m = Inr ?year"
    using h by (intro amount_filter) (elim conjE, assumption)+
  moreover have "candidate_from_match [] ''Total: 45'' 1 (double (9 / 10)) ?n = Inr ?sum"
    using h by (intro amount_filter) (elim conjE, assumption)+
  ultimately show ?thesis using h by (elim conjE) simp
qed

section \<open>The tiers of the title extractor\<close>

lemma title_first_pass_append:
  "title_first_pass (xs @ ys) =
     (case title_first_pass xs of Inl e \<Rightarrow> Inl e | Inr (Some t) \<Rightarrow> Inr (Some t)
      | Inr None \<Rightarrow> title_first_pass ys)"
  by (induction xs) (auto split: sum.splits option.splits)

lemma title_first_pass_skips:
  "\<forall>x\<in>set pre. title_first_pass_line title_patterns (strip (d_text x)) = Inr None \<Longrightarrow>
   title_first_pass pre = Inr None"
  by (induction pre) auto

text \<open>
  Claim C6 says that a label-anchored match anywhere in the list decides the title.
  The first pass goes through the lines in ranked order and tries all three patterns
  of its table on each line, so a higher-ranked line that matches the generic
  whole-line pattern is returned before a labelled line is looked at.
\<close>

theorem generic_line_beats_later_label:
  "extract_title_enhanced
     [\<lparr>d_text = ''DOMINO'S PIZZA'', d_confidence = double (95 / 100), d_variant = ''binary''\<rparr>,
      \<lparr>d_text = ''Merchant: Foo Bar'', d_confidence = double (9 / 10), d_variant = ''binary''\<rparr>] = Inr ''DOMINO'S PIZZA'' \<and>
   title_from_pattern title_label_pattern ''Merchant: Foo Bar'' = Inr (Some ''Foo Bar'') \<and>
   title_from_pattern title_label_pattern ''DOMINO'S PIZZA'' = Inr None \<and>
   title_from_pattern title_line_pattern ''DOMINO'S PIZZA'' = Inr (Some ''DOMINO'S PIZZA'')"
  by code_simp

text \<open>
  Claim C6, amended. When the first pass returns a title, that title is the result
  and no lower tier is used. The first pass returns for the first line on which one
  of its patterns gives an accepted title; if that line has an accepted label-anchored
  match, the title is this match.
\<close>

theorem title_first_pass_decides:
  "(title_first_pass normalized = Inr (Some t) \<longrightarrow> extract_title_enhanced normalized = Inr t) \<and>
   ((\<forall>x\<in>set pre. title_first_pass_line title_patterns (strip (d_text x)) = Inr None) \<and>
    title_from_pattern title_label_pattern (strip (d_text l)) = Inr (Some t')
    \<longrightarrow> extract_title_enhanced (pre @ l # post) = Inr t')"
proof (intro conjI impI)
  assume "title_first_pass normalized = Inr (Some t)"
  then show "extract_title_enhanced normalized = Inr t"
    by (simp add: extract_title_enhanced_def)
next
  assume h: "(\<forall>x\<in>set pre. title_first_pass_line title_patterns (strip (d_text x)) = Inr None) \<and>
    title_from_pattern title_label_pattern (strip (d_text l)) = Inr (Some t')"
  then have "title_first_pass pre = Inr None"
    by (intro title_first_pass_skips) simp
  moreover from h have "title_first_pass_line title_patterns (strip (d_text l)) = Inr (Some t')"
    by (simp add: title_patterns_def)
  ultimately have "title_first_pass (pre @ l # post) = Inr (Some t')"
    by (simp add: title_first_pass_append)
  then show "extract_title_enhanced (pre @ l # post) = Inr t'"
    by (simp add: extract_title_enhanced_def)
qed

theorem title_first_pass_decides_witness:
  "extract_title_enhanced
     [\<lparr>d_text = ''42'', d_confidence = double (95 / 100), d_variant = ''binary''\<rparr>,
      \<lparr>d_text = ''Merchant: Foo Bar'', d_confidence = double (9 / 10), d_variant = ''binary''\<rparr>,
      \<lparr>d_text = ''DOMINO'S PIZZA'', d_confidence = double (8 / 10), d_variant = ''binary''\<rparr>] = Inr ''Foo Bar''"
proof -
  let ?pre = "[\<lparr>d_text = ''42'', d_confidence = double (95 / 100), d_variant = ''binary''\<rparr>]"
  let ?l = "\<lparr>d_text = ''Merchant: Foo Bar'', d_confidence = double (9 / 10), d_variant = ''binary''\<rparr>"
  let ?post = "[\<lparr>d_text = ''DOMINO'S PIZZA'', d_confidence = double (8 / 10), d_variant = ''binary''\<rparr>]"
  have h: "(\<forall>x\<in>set ?pre. title_first_pass_line title_patterns (strip (d_text x)) = Inr None) \<and>
      title_from_pattern title_label_pattern (strip (d_text ?l)) = Inr (Some ''Foo Bar'')"
    by code_simp
  from title_first_pass_decides[of _ _ ?pre ?l "''Foo Bar''" ?post]
  have "(\<forall>x\<in>set ?pre. title_first_pass_line title_patterns (strip (d_text x)) = Inr None) \<and>
      title_from_pattern title_label_pattern (strip (d_text ?l)) = Inr (Some ''Foo Bar'')
      \<longrightarrow> extract_title_enhanced (?pre @ ?l # ?post) = Inr ''Foo Bar''"
    by (rule conjunct2)
  from this h have "extract_title_enhanced (?pre @ ?l # ?post) = Inr ''Foo Bar''"
    by (rule mp)
  then show ?thesis by simp
qed

section \<open>An empty title\<close>

text \<open>
  Claim C7 concludes that the title is never the empty string. On the line
  \<open>Title: Name\<close> the label pattern captures \<open>Name\<close>, the clean-up removes it as a label
  prefix, and the test for a leftover label fragment (a single word shorter than four
  characters) does not cover the empty string, which has no word: the first pass
  returns the empty title.
\<close>

theorem title_can_be_empty:
  "extract_receipt_data [\<lparr>d_text = ''Title: Name'', d_confidence = double (9 / 10), d_variant = v\<rparr>] =
     Inr \<lparr>title = [], date = [], amount = Finite 0, currency = UNKNOWN, raw_text = [''Title: Name'']\<rparr>"
  by code_simp

section \<open>What a merge of duplicate amounts changes\<close>

lemma merge_duplicate_shape:
  "merge_duplicate cands a confidence text = Some cands' \<Longrightarrow>
   \<exists>pre c post. cands = pre @ c # post \<and> (\<forall>x\<in>set pre. \<not> amounts_close (c_amount x) a) \<and>
      amounts_close (c_amount c) a \<and>
      cands' = pre @ (if c_confidence c < confidence
                      then c\<lparr>c_confidence := confidence, c_text := text\<rparr> else c) # post"
proof (induction cands arbitrary: cands')
  case Nil
  then show ?case by simp
next
  case (Cons x xs)
  show ?case
  proof (cases "amounts_close (c_amount x) a")
    case True
    with Cons.prems have "cands' = (if c_confidence x < confidence
        then x\<lparr>c_confidence := confidence, c_text := text\<rparr> else x) # xs"
      by auto
    with True show ?thesis by (intro exI[of _ "[]"] exI[of _ x] exI[of _ xs]) simp
  next
    case False
    with Cons.prems obtain ys where ys: "merge_duplicate xs a confidence text = Some ys"
      and c': "cands' = x # ys" by auto
    from Cons.IH[OF ys] obtain pre c post where
      "xs = pre @ c # post" "\<forall>x\<in>set pre. \<not> amounts_close (c_amount x) a"
      "amounts_close (c_amount c) a"
      "ys = pre @ (if c_confidence c < confidence
                      then c\<lparr>c_confidence := confidence, c_text := text\<rparr> else c) # post"
      by blast
    with False c' show ?thesis
      by (intro exI[of _ "x # pre"] exI[of _ c] exI[of _ post]) simp
  qed
qed

lemma merge_duplicate_frame:
  assumes "merge_duplicate cands a confidence text = Some cands'"
  shows "map c_currency cands' = map c_currency cands" and "map c_amount cands' = map c_amount cands"
  using merge_duplicate_shape[OF assms] by auto

lemma merge_duplicate_happens:
  "(merge_duplicate cands a confidence text \<noteq> None) = (\<exists>c\<in>set cands. amounts_close (c_amount c) a)"
  by (induction cands) auto

text \<open>
  Claim C10. A new match is a duplicate exactly when some candidate passes the test
  \<^verbatim>\<open>abs(candidate["amount"] - amount) < 0.01\<close>, computed on floats. Then the first such
  candidate takes the score and the source text of the new match if the new score is
  higher; its currency, its amount and all other candidates stay as they are. So the
  currency returned can come from the first match and the score and text from a later
  one: \<open>$45.00\<close> alone gives a candidate with currency USD and score 0.7, \<open>Total: 45\<close>
  alone gives UNKNOWN, and the two lines together give one candidate with currency USD,
  text \<open>Total: 45\<close> and score 1.0, returned as 45 USD. The floats 45.0 and 45.01 pass
  the test as well, their difference being the float 0.00999999999999801: after
  \<open>$45.00\<close> the line \<open>Fee: 45.01\<close> changes the score to 0.8 and the text, and 45 USD is
  returned.
\<close>

theorem merge_keeps_currency:
  "((merge_duplicate cands a confidence text \<noteq> None) =
      (\<exists>c\<in>set cands. amounts_close (c_amount c) a)) \<and>
   (merge_duplicate cands a confidence text = Some cands' \<longrightarrow>
      (\<exists>pre c post. cands = pre @ c # post \<and> (\<forall>x\<in>set pre. \<not> amounts_close (c_amount x) a) \<and>
         amounts_close (c_amount c) a \<and>
         cands' = pre @ (if c_confidence c < confidence
                         then c\<lparr>c_confidence := confidence, c_text := text\<rparr> else c) # post) \<and>
      map c_currency cands' = map c_currency cands \<and> map c_amount cands' = map c_amount cands) \<and>
   amount_candidates [] [\<lparr>d_text = ''$45.00'', d_confidence = double (9 / 10), d_variant = ''binary''\<rparr>] =
     [\<lparr>c_amount = Finite 45, c_currency = USD, c_text = ''$45.00'', c_confidence = double (7 / 10)\<rparr>] \<and>
   amount_candidates [] [\<lparr>d_text = ''Total: 45'', d_confidence = double (8 / 10), d_variant = ''binary''\<rparr>] =
     [\<lparr>c_amount = Finite 45, c_currency = UNKNOWN, c_text = ''Total: 45'', c_confidence = 1\<rparr>] \<and>
   amount_candidates [] [\<lparr>d_text = ''$45.00'', d_confidence = double (9 / 10), d_variant = ''binary''\<rparr>,
                         \<lparr>d_text = ''Total: 45'', d_confidence = double (8 / 10), d_variant = ''binary''\<rparr>] =
     [\<lparr>c_amount = Finite 45, c_currency = USD, c_text = ''Total: 45'', c_confidence = 1\<rparr>] \<and>
   extract_amount_enhanced [\<lparr>d_text = ''$45.00'', d_confidence = double (9 / 10), d_variant = ''binary''\<rparr>,
                            \<lparr>d_text = ''Total: 45'', d_confidence = double (8 / 10), d_variant = ''binary''\<rparr>] =
     Inr \<lparr>a_value = Finite 45, a_currency = USD\<rparr> \<and>
   amounts_close (Finite 45) (float_of (4501 / 100)) \<and>
   amount_candidates [] [\<lparr>d_text = ''$45.00'', d_confidence = double (9 / 10), d_variant = ''binary''\<rparr>,
                         \<lparr>d_text = ''Fee: 45.01'', d_confidence = double (8 / 10), d_variant = ''binary''\<rparr>] =
     [\<lparr>c_amount = Finite 45, c_currency = USD, c_text = ''Fee: 45.01'', c_confidence = double (8 / 10)\<rparr>] \<and>
   extract_amount_enhanced [\<lparr>d_text = ''$45.00'', d_confidence = double (9 / 10), d_variant = ''binary''\<rparr>,
                            \<lparr>d_text = ''Fee: 45.01'', d_confidence = double (8 / 10), d_variant = ''binary''\<rparr>] =
     Inr \<lparr>a_value = Finite 45, a_currency = USD\<rparr>"
proof -
  have happens: "(merge_duplicate cands a confidence text \<noteq> None) =
      (\<exists>c\<in>set cands. amounts_close (c_amount c) a)"
    by (rule merge_duplicate_happens)
  have frame: "merge_duplicate cands a confidence text = Some cands' \<longrightarrow>
      (\<exists>pre c post. cands = pre @ c # post \<and> (\<forall>x\<in>set pre. \<not> amounts_close (c_amount x) a) \<and>
         amounts_close (c_amount c) a \<and>
         cands' = pre @ (if c_confidence c < confidence
                         then c\<lparr>c_confidence := confidence, c_text := text\<rparr> else c) # post) \<and>
      map c_currency cands' = map c_currency cands \<and> map c_amount cands' = map c_amount cands"
    using merge_duplicate_shape[of cands a confidence "text" cands']
      merge_duplicate_frame[of cands a confidence "text" cands'] by (intro impI conjI)
  have inst: "amount_candidates [] [\<lparr>d_text = ''$45.00'', d_confidence = double (9 / 10), d_variant = ''binary''\<rparr>] =
     [\<lparr>c_amount = Finite 45, c_currency = USD, c_text = ''$45.00'', c_confidence = double (7 / 10)\<rparr>] \<and>
   amount_candidates [] [\<lparr>d_text = ''Total: 45'', d_confidence = double (8 / 10), d_variant = ''binary''\<rparr>] =
     [\<lparr>c_amount = Finite 45, c_currency = UNKNOWN, c_text = ''Total: 45'', c_confidence = 1\<rparr>] \<and>
   amount_candidates [] [\<lparr>d_text = ''$45.00'', d_confidence = double (9 / 10), d_variant = ''binary''\<rparr>,
                         \<lparr>d_text = ''Total: 45'', d_confidence = double (8 / 10), d_variant = ''binary''\<rparr>] =
     [\<lparr>c_amount = Finite 45, c_currency = USD, c_text = ''Total: 45'', c_confidence = 1\<rparr>] \<and>
   extract_amount_enhanced [\<lparr>d_text = ''$45.00'', d_confidence = double (9 / 10), d_variant = ''binary''\<rparr>,
                            \<lparr>d_text = ''Total: 45'', d_confidence = double (8 / 10), d_variant = ''binary''\<rparr>] =
     Inr \<lparr>a_value = Finite 45, a_currency = USD\<rparr> \<and>
   amounts_close (Finite 45) (float_of (4501 / 100)) \<and>
   amount_candidates [] [\<lparr>d_text = ''$45.00'', d_confidence = double (9 / 10), d_variant = ''binary''\<rparr>,
                         \<lparr>d_text = ''Fee: 45.01'', d_confidence = double (8 / 10), d_variant = ''binary''\<rparr>] =
     [\<lparr>c_amount = Finite 45, c_currency = USD, c_text = ''Fee: 45.01'', c_confidence = double (8 / 10)\<rparr>] \<and>
   extract_amount_enhanced [\<lparr>d_text = ''$45.00'', d_confidence = double (9 / 10), d_variant = ''binary''\<rparr>,
                            \<lparr>d_text = ''Fee: 45.01'', d_confidence = double (8 / 10), d_variant = ''binary''\<rparr>] =
     Inr \<lparr>a_value = Finite 45, a_currency = USD\<rparr>"
    by code_simp
  from frame inst have "(merge_duplicate cands a confidence text = Some cands' \<longrightarrow>
      (\<exists>pre c post. cands = pre @ c # post \<and> (\<forall>x\<in>set pre. \<not> amounts_close (c_amount x) a) \<and>
         amounts_close (c_amount c) a \<and>
         cands' = pre @ (if c_confidence c < confidence
                         then c\<lparr>c_confidence := confidence, c_text := text\<rparr> else c) # post) \<and>
      map c_currency cands' = map c_currency cands \<and> map c_amount cands' = map c_amount cands) \<and>
   amount_candidates [] [\<lparr>d_text = ''$45.00'', d_confidence = double (9 / 10), d_variant = ''binary''\<rparr>] =
     [\<lparr>c_amount = Finite 45, c_currency = USD, c_text = ''$45.00'', c_confidence = double (7 / 10)\<rparr>] \<and>
   amount_candidates [] [\<lparr>d_text = ''Total: 45'', d_confidence = double (8 / 10), d_variant = ''binary''\<rparr>] =
     [\<lparr>c_amount = Finite 45, c_currency = UNKNOWN, c_text = ''Total: 45'', c_confidence = 1\<rparr>] \<and>
   amount_candidates [] [\<lparr>d_text = ''$45.00'', d_confidence = double (9 / 10), d_variant = ''binary''\<rparr>,
                         \<lparr>d_text = ''Total: 45'', d_confidence = double (8 / 10), d_variant = ''binary''\<rparr>] =
     [\<lparr>c_amount = Finite 45, c_currency = USD, c_text = ''Total: 45'', c_confidence = 1\<rparr>] \<and>
   extract_amount_enhanced [\<lparr>d_text = ''$45.00'', d_confidence = double (9 / 10), d_variant = ''binary''\<rparr>,
                            \<lparr>d_text = ''Total: 45'', d_confidence = double (8 / 10), d_variant = ''binary''\<rparr>] =
     Inr \<lparr>a_value = Finite 45, a_currency = USD\<rparr> \<and>
   amounts_close (Finite 45) (float_of (4501 / 100)) \<and>
   amount_candidates [] [\<lparr>d_text = ''$45.00'', d_confidence = double (9 / 10), d_variant = ''binary''\<rparr>,
                         \<lparr>d_text = ''Fee: 45.01'', d_confidence = double (8 / 10), d_variant = ''binary''\<rparr>] =
     [\<lparr>c_amount = Finite 45, c_currency = USD, c_text = ''Fee: 45.01'', c_confidence = double (8 / 10)\<rparr>] \<and>
   extract_amount_enhanced [\<lparr>d_text = ''$45.00'', d_confidence = double (9 / 10), d_variant = ''binary''\<rparr>,
                            \<lparr>d_text = ''Fee: 45.01'', d_confidence = double (8 / 10), d_variant = ''binary''\<rparr>] =
     Inr \<lparr>a_value = Finite 45, a_currency = USD\<rparr>"
    by (rule conjI)
  with happens show ?thesis by (rule conjI)
qed

theorem merge_keeps_currency_witness:
  "merge_duplicate
     [\<lparr>c_amount = Finite 45, c_currency = USD, c_text = ''$45.00'', c_confidence = double (7 / 10)\<rparr>]
     (Finite 45) 1 ''Total: 45'' =
     Some [\<lparr>c_amount = Finite 45, c_currency = USD, c_text = ''Total: 45'', c_confidence = 1\<rparr>] \<and>
   map c_currency [\<lparr>c_amount = Finite 45, c_currency = USD, c_text = ''Total: 45'', c_confidence = 1\<rparr>] =
   map c_currency
     [\<lparr>c_amount = Finite 45, c_currency = USD, c_text = ''$45.00'', c_confidence = double (7 / 10)\<rparr>]"
proof -
  let ?old = "[\<lparr>c_amount = Finite 45, c_currency = USD, c_text = ''$45.00'',
                 c_confidence = double (7 / 10)\<rparr>]"
  let ?new = "[\<lparr>c_amount = Finite 45, c_currency = USD, c_text = ''Total: 45'', c_confidence = 1\<rparr>]"
  have h: "merge_duplicate ?old (Finite 45) 1 ''Total: 45'' = Some ?new"
    by code_simp
  from merge_keeps_currency[of ?old "Finite 45" 1 "''Total: 45''" ?new]
  have "merge_duplicate ?old (Finite 45) 1 ''Total: 45'' = Some ?new \<longrightarrow>
      (\<exists>pre c post. ?old = pre @ c # post \<and>
         (\<forall>x\<in>set pre. \<not> amounts_close (c_amount x) (Finite 45)) \<and>
         amounts_close (c_amount c) (Finite 45) \<and>
         ?new = pre @ (if c_confidence c < 1
                         then c\<lparr>c_confidence := 1, c_text := ''Total: 45''\<rparr> else c) # post) \<and>
      map c_currency ?new = map c_currency ?old \<and> map c_amount ?new = map c_amount ?old"
    by (elim conjE)
  from this h have "(\<exists>pre c post. ?old = pre @ c # post \<and>
         (\<forall>x\<in>set pre. \<not> amounts_close (c_amount x) (Finite 45)) \<and>
         amounts_close (c_amount c) (Finite 45) \<and>
         ?new = pre @ (if c_confidence c < 1
                         then c\<lparr>c_confidence := 1, c_text := ''Total: 45''\<rparr> else c) # post) \<and>
      map c_currency ?new = map c_currency ?old \<and> map c_amount ?new = map c_amount ?old"
    by (rule mp)
  then have "map c_currency ?new = map c_currency ?old" by (elim conjE)
  with h show ?thesis by (rule conjI)
qed

end
